theory Spec2Isabelle
  imports Main "HOL-Library.Word"
begin

section \<open>Go runtime notions shared by the embedding\<close>

text \<open>
  Go's \<^verbatim>\<open>int\<close> is a 64-bit two's complement integer on the platforms the driver is
  built for. It is modelled as \<^typ>\<open>int\<close> with the wrap-around written out, and
  Go's integer division truncates towards zero.
\<close>

definition wrap64 :: "int \<Rightarrow> int" where
  "wrap64 x = (x + 2 ^ 63) mod 2 ^ 64 - 2 ^ 63"

definition go_div :: "int \<Rightarrow> int \<Rightarrow> int" where
  "go_div a b = sgn a * sgn b * (\<bar>a\<bar> div \<bar>b\<bar>)"

text \<open>
  A panic of the Go runtime or of a called function. A function body either returns a
  value or panics; \<^verbatim>\<open>recover\<close> in a deferred function turns the second into the first.
\<close>

datatype panic_value =
    NilDereference
  | IndexOutOfRange
  | SliceBoundsOutOfRange
  | MakeSliceLenOutOfRange
  | NativePanic string

datatype 'a outcome = Returns 'a | Panics panic_value

section \<open>Time binder: the zone offset string (src/unnamed/part_000)\<close>

text \<open>
  \<^verbatim>\<open>fmt.Sprintf("%02d", n)\<close>: the decimal digits of \<open>n\<close>, padded on the left with
  zeros to width two; for a negative number the sign takes one of the two columns.
\<close>

definition digit_char :: "nat \<Rightarrow> char" where
  "digit_char d = ''0123456789'' ! d"

fun decimal :: "nat \<Rightarrow> string" where
  "decimal n = (if n < 10 then [digit_char n] else decimal (n div 10) @ [digit_char (n mod 10)])"

declare decimal.simps [simp del]

definition zero_pad :: "nat \<Rightarrow> string \<Rightarrow> string" where
  "zero_pad w s = replicate (w - length s) (CHR ''0'') @ s"

definition sprintf_02d :: "int \<Rightarrow> string" where
  "sprintf_02d n =
     (if n < 0 then CHR ''-'' # zero_pad 1 (decimal (nat (- n)))
      else zero_pad 2 (decimal (nat n)))"

text \<open>
  The part of a \<^verbatim>\<open>time.Time\<close> the binder reads: the civil fields and the zone, whose
  offset is a Go \<^verbatim>\<open>int\<close> of seconds east of UTC.
\<close>

record Time =
  time_Year :: int
  time_Month :: int
  time_Day :: int
  time_Hour :: int
  time_Minute :: int
  time_Second :: int
  time_Nanosecond :: int
  time_Zone :: "string \<times> int"

text \<open>
  \<^verbatim>\<open>zoneOffset(value, buf)\<close>: the buffer is reset, written to and read back; the
  function returns the string and leaves it in the buffer.
\<close>

definition zoneOffset :: "Time \<Rightarrow> string \<Rightarrow> string \<times> string" where
  "zoneOffset value buf =
     (let buf0 = [];
          zoneOffsetInSeconds = snd (time_Zone value);
          (buf1, zoneOffsetInSeconds1) =
            (if zoneOffsetInSeconds < 0
             then (buf0 @ [CHR ''-''], wrap64 (zoneOffsetInSeconds * (- 1)))
             else (buf0 @ [CHR ''+''], zoneOffsetInSeconds));
          hourOffset = go_div zoneOffsetInSeconds1 3600;
          buf2 = buf1 @ sprintf_02d hourOffset;
          buf3 = buf2 @ [CHR '':''];
          zoneOffsetInSeconds2 = wrap64 (zoneOffsetInSeconds1 - wrap64 (hourOffset * 3600));
          minuteOffset = go_div zoneOffsetInSeconds2 60;
          buf4 = buf3 @ sprintf_02d minuteOffset
      in (buf4, buf4))"

text \<open>
  A valid time value carries a civil zone offset of less than a day in either
  direction.
\<close>

definition valid_time :: "Time \<Rightarrow> bool" where
  "valid_time value = (- 86400 < snd (time_Zone value) \<and> snd (time_Zone value) < 86400)"

section \<open>The native call interface and the statement\<close>

text \<open>
  Native handles and C pointers are opaque: \<open>None\<close> is the nil pointer, \<open>Some n\<close> a
  handle the native environment gave out.
\<close>

type_synonym handle = "nat option"

type_synonym byte = "8 word"

abbreviation OCI_ERROR :: int where
  "OCI_ERROR \<equiv> - 1"

abbreviation OCI_INVALID_HANDLE :: int where
  "OCI_INVALID_HANDLE \<equiv> - 2"

datatype dtype = OCI_DTYPE_LOB | OCI_DTYPE_INTERVAL_DS | OCI_DTYPE_TIMESTAMP_TZ

datatype sqlt = SQLT_BLOB | SQLT_INTERVAL_DS | SQLT_TIMESTAMP_TZ | SQLT_VNU

datatype piece = OCI_ONE_PIECE | OCI_FIRST_PIECE | OCI_NEXT_PIECE | OCI_LAST_PIECE

text \<open>The narrowing conversions to the fixed-width C integer types of the native ABI.\<close>

definition ub1 :: "int \<Rightarrow> int" where
  "ub1 x = x mod 2 ^ 8"

definition ub4 :: "int \<Rightarrow> int" where
  "ub4 x = x mod 2 ^ 32"

definition sb2 :: "int \<Rightarrow> int" where
  "sb2 x = (x + 2 ^ 15) mod 2 ^ 16 - 2 ^ 15"

definition sb4 :: "int \<Rightarrow> int" where
  "sb4 x = (x + 2 ^ 31) mod 2 ^ 32 - 2 ^ 31"

text \<open>
  Every call that leaves the Go code, in the order it is issued, with the arguments the
  code computes for it. \<open>OCIBreak\<close> stands for the session's \<^verbatim>\<open>Break()\<close>.
\<close>

datatype call =
    OCIDescriptorAlloc dtype
  | OCIDescriptorFree handle dtype
  | OCIIntervalSetDaySecond int int int int int handle
  | OCIDateTimeConstruct handle int int int int int int int string nat
  | OCIBINDBYPOS handle int handle sqlt
  | OCIBINDBYPOS_array handle int "byte list list" "int list" "nat list" "nat list" nat bool
  | OCIBindArrayOfStruct handle
  | OCILobCreateTemporary handle
  | OCILobFreeTemporary handle
  | OCILobWrite2 handle "64 word" "64 word" "byte list" "64 word" piece
  | OCIErrorGet
  | OCIBreak
  | C_CString string
  | C_free handle

text \<open>
  What a native call hands back: its status word, the handle it stores through an out
  pointer, and the amount it stores through an in/out amount pointer. A native
  environment is the sequence of its answers: the answer to a call is looked up at the
  number of calls issued before it, so an environment may answer every call as it likes.
  An answer may also be a panic raised while the call runs.
\<close>

record resp =
  r_status :: int
  r_handle :: handle
  r_amt :: "64 word"

type_synonym native = "nat \<Rightarrow> resp outcome"

text \<open>
  A live statement: its native handle and type, and the session, server and environment
  it belongs to (these are non-nil for as long as the statement lives).
\<close>

record Env =
  env_id :: nat
  ocienv :: handle
  ocierr :: handle

record Srv =
  srv_id :: nat
  env :: Env

record Ses =
  ses_id :: nat
  srv :: Srv
  ocisvcctx :: handle

record Stmt =
  stmt_id :: nat
  ses :: Ses
  ocistmt :: handle
  stmtType :: nat

text \<open>
  Go's \<^verbatim>\<open>error\<close> values. The constructors \<open>er\<close>, \<open>errNew\<close>, \<open>errE\<close>, \<open>errR\<close> and
  \<open>ociError\<close> stand for the driver's error helpers of the same names, whose bodies are
  not part of the sources at hand: each wraps its argument in an error of its own kind
  (\<open>ociError\<close> carries the code fetched from the environment's error handle).
  \<open>io_EOF\<close> and \<open>io_ErrUnexpectedEOF\<close> are the two sentinel values of package io;
  \<open>SourceError\<close> is any other error value a byte source returns.
\<close>

datatype error =
    io_EOF
  | io_ErrUnexpectedEOF
  | SourceError string
  | er string
  | errNew string
  | errE error
  | errR panic_value
  | ociError int

section \<open>Slices\<close>

text \<open>
  A Go slice with its backing array from the slice's first element on: \<open>arr\<close> holds
  \<^verbatim>\<open>cap(s)\<close> elements, of which the first \<open>len\<close> are the slice's. Reslicing keeps the
  array, so elements beyond the length reappear when the slice is extended again.
\<close>

record 'a slice =
  arr :: "'a list"
  len :: nat

definition cap :: "'a slice \<Rightarrow> nat" where
  "cap s = length (arr s)"

definition elems :: "'a slice \<Rightarrow> 'a list" where
  "elems s = take (len s) (arr s)"

definition make_slice :: "'a \<Rightarrow> nat \<Rightarrow> nat \<Rightarrow> 'a slice outcome" where
  "make_slice z l c =
     (if c < l then Panics MakeSliceLenOutOfRange else Returns \<lparr>arr = replicate c z, len = l\<rparr>)"

definition reslice :: "'a slice \<Rightarrow> nat \<Rightarrow> 'a slice outcome" where
  "reslice s n = (if cap s < n then Panics SliceBoundsOutOfRange else Returns (s\<lparr>len := n\<rparr>))"

definition set_elem :: "'a slice \<Rightarrow> nat \<Rightarrow> 'a \<Rightarrow> 'a slice outcome" where
  "set_elem s i v =
     (if len s \<le> i then Panics IndexOutOfRange else Returns (s\<lparr>arr := (arr s)[i := v]\<rparr>))"

section \<open>Binders (src/bndIntervalDS.go, src/unnamed/part_000, src/bndLob.go)\<close>

text \<open>
  Every binder starts with the same two fields, the statement it is bound for and the
  native bind handle; the records share them through a common root.
\<close>

record bndBase =
  stmt :: "Stmt option"
  ocibnd :: handle

record bndIntervalDS = bndBase +
  ociInterval :: handle

record bndTime = bndBase +
  ociDateTime :: handle
  cZone :: handle
  zoneBuf :: string

record bndLob = bndBase +
  ociLobLocator :: handle

text \<open>
  Modelled from the spec: the declarations of \<^verbatim>\<open>Int64\<close>, \<^verbatim>\<open>IntervalDS\<close> and
  \<^verbatim>\<open>arrHlp\<close> are not in the sources at hand. \<open>Int64\<close> is a nullable 64-bit integer;
  \<open>IntervalDS\<close> has the five integer fields the binder reads; \<open>arrHlp\<close> holds the
  null-indicator, actual-length and return-code arrays and the current length the
  binder's code uses, and the flag that \<^verbatim>\<open>IsAssocArr()\<close> reports.
\<close>

record Int64 =
  IsNull :: bool
  Value :: int


record IntervalDS =
  Day :: int
  Hour :: int
  Minute :: int
  Second :: int
  Nanosecond :: int

record arrHlp =
  curlen :: nat
  nullInds :: "int slice"
  alen :: "nat slice"
  rcode :: "nat slice"
  IsAssocArr :: bool

type_synonym OCINumber = "byte list"

record bndInt64Slice = bndBase +
  ociNumbers :: "OCINumber slice"
  valuesp :: "Int64 slice option"
  ints :: "int slice"
  hlp :: arrHlp

datatype bnd =
    BndIntervalDS bndIntervalDS
  | BndTime bndTime
  | BndLob bndLob
  | BndInt64Slice bndInt64Slice

datatype bndIdx = bndIdxIntervalDS | bndIdxTime | bndIdxLob | bndIdxInt64Slice

text \<open>
  The world outside a binder: the native calls issued so far, and the statements' pools
  of released binders (statement, kind, binder), newest first.
\<close>

record world =
  calls :: "call list"
  pools :: "(nat \<times> bndIdx \<times> bnd) list"

text \<open>
  A native call: it is recorded, and the environment's answer is passed on to the rest of
  the function, unless the call panics.
\<close>

definition native_call ::
  "native \<Rightarrow> call \<Rightarrow> 'b \<times> world \<Rightarrow> (resp \<Rightarrow> 'b \<times> world \<Rightarrow> 'r outcome \<times> 'b \<times> world)
     \<Rightarrow> 'r outcome \<times> 'b \<times> world" where
  "native_call N c st k =
     (let st1 = (fst st, (snd st)\<lparr>calls := calls (snd st) @ [c]\<rparr>)
      in case N (length (calls (snd st))) of
           Panics v \<Rightarrow> (Panics v, st1)
         | Returns r \<Rightarrow> k r st1)"

text \<open>
  Modelled from the spec: \<^verbatim>\<open>Env.ociError\<close> is not in the sources at hand; it fetches
  the last native error from the environment's error handle.
\<close>

definition env_ociError ::
  "native \<Rightarrow> 'b \<times> world \<Rightarrow> (error \<Rightarrow> 'b \<times> world \<Rightarrow> 'r outcome \<times> 'b \<times> world)
     \<Rightarrow> 'r outcome \<times> 'b \<times> world" where
  "env_ociError N st k = native_call N OCIErrorGet st (\<lambda>r. k (ociError (r_status r)))"

text \<open>
  Modelled from the spec: \<^verbatim>\<open>Stmt.putBnd\<close> is not in the sources at hand; it pushes the
  binder onto the statement's free-list for its kind. The free-lists belong to the
  statement, so a nil statement is a nil dereference.
\<close>

definition putBnd :: "Stmt option \<Rightarrow> bndIdx \<Rightarrow> bnd \<Rightarrow> world \<Rightarrow> unit outcome \<times> world" where
  "putBnd s idx b w =
     (case s of
        None \<Rightarrow> (Panics NilDereference, w)
      | Some s' \<Rightarrow> (Returns (), w\<lparr>pools := (stmt_id s', idx, b) # pools w\<rparr>))"

text \<open>
  The deferred function of every \<^verbatim>\<open>close\<close>: a panic of the body is recovered and
  becomes the returned error.
\<close>

definition recover_err :: "error option outcome \<times> 's \<Rightarrow> error option outcome \<times> 's" where
  "recover_err res =
     (case res of
        (Panics v, st) \<Rightarrow> (Returns (Some (errR v)), st)
      | (Returns e, st) \<Rightarrow> (Returns e, st))"

text \<open>
  The last two statements of every \<^verbatim>\<open>close\<close>: \<^verbatim>\<open>stmt.putBnd(idx, bnd)\<close> and
  \<^verbatim>\<open>return nil\<close>.
\<close>

definition put_and_return ::
  "Stmt option \<Rightarrow> bndIdx \<Rightarrow> bnd \<Rightarrow> 'b \<Rightarrow> world \<Rightarrow> error option outcome \<times> 'b \<times> world" where
  "put_and_return s idx wrapped b w =
     (case putBnd s idx wrapped w of
        (Panics v, w1) \<Rightarrow> (Panics v, b, w1)
      | (Returns u, w1) \<Rightarrow> (Returns None, b, w1))"

subsection \<open>bndIntervalDS\<close>

definition bndIntervalDS_bind ::
  "native \<Rightarrow> IntervalDS \<Rightarrow> int \<Rightarrow> Stmt \<Rightarrow> bndIntervalDS \<times> world
     \<Rightarrow> error option outcome \<times> bndIntervalDS \<times> world" where
  "bndIntervalDS_bind N value position s st =
     native_call N (OCIDescriptorAlloc OCI_DTYPE_INTERVAL_DS) ((fst st)\<lparr>stmt := Some s\<rparr>, snd st)
      (\<lambda>r (b, w).
        let b = b\<lparr>ociInterval := r_handle r\<rparr> in
        if r_status r = OCI_ERROR then env_ociError N (b, w) (\<lambda>e st. (Returns (Some e), st))
        else if r_status r = OCI_INVALID_HANDLE
        then (Returns (Some (errNew ''unable to allocate oci interval handle during bind'')), b, w)
        else native_call N
          (OCIIntervalSetDaySecond (sb4 (Day value)) (sb4 (Hour value)) (sb4 (Minute value))
             (sb4 (Second value)) (sb4 (Nanosecond value)) (ociInterval b)) (b, w)
          (\<lambda>r (b, w).
            if r_status r = OCI_ERROR then env_ociError N (b, w) (\<lambda>e st. (Returns (Some e), st))
            else native_call N
              (OCIBINDBYPOS (ocistmt s) (ub4 position) (ociInterval b) SQLT_INTERVAL_DS) (b, w)
              (\<lambda>r (b, w).
                let b = b\<lparr>ocibnd := r_handle r\<rparr> in
                if r_status r = OCI_ERROR
                then env_ociError N (b, w) (\<lambda>e st. (Returns (Some e), st))
                else (Returns None, b, w))))"

definition bndIntervalDS_close ::
  "native \<Rightarrow> bndIntervalDS \<times> world \<Rightarrow> error option outcome \<times> bndIntervalDS \<times> world" where
  "bndIntervalDS_close N st =
     recover_err
       (native_call N (OCIDescriptorFree (ociInterval (fst st)) OCI_DTYPE_INTERVAL_DS) st
         (\<lambda>r (b, w).
           let s = stmt b;
               b = b\<lparr>stmt := None, ocibnd := None, ociInterval := None\<rparr>
           in put_and_return s bndIdxIntervalDS (BndIntervalDS b) b w))"

subsection \<open>bndTime\<close>

definition bndTime_bind ::
  "native \<Rightarrow> Time \<Rightarrow> int \<Rightarrow> Stmt \<Rightarrow> bndTime \<times> world
     \<Rightarrow> error option outcome \<times> bndTime \<times> world" where
  "bndTime_bind N value position s st =
     (let b = (fst st)\<lparr>stmt := Some s\<rparr>;
          (zone, zb) = zoneOffset value (zoneBuf b);
          b = b\<lparr>zoneBuf := zb\<rparr>
      in native_call N (C_CString zone) (b, snd st)
       (\<lambda>r (b, w).
        native_call N (OCIDescriptorAlloc OCI_DTYPE_TIMESTAMP_TZ) (b\<lparr>cZone := r_handle r\<rparr>, w)
         (\<lambda>r (b, w).
          let b = b\<lparr>ociDateTime := r_handle r\<rparr> in
          if r_status r = OCI_ERROR then env_ociError N (b, w) (\<lambda>e st. (Returns (Some e), st))
          else if r_status r = OCI_INVALID_HANDLE
          then (Returns (Some (errNew ''unable to allocate oci timestamp handle during bind'')), b, w)
          else native_call N
            (OCIDateTimeConstruct (ociDateTime b) (sb2 (time_Year value)) (ub1 (time_Month value))
               (ub1 (time_Day value)) (ub1 (time_Hour value)) (ub1 (time_Minute value))
               (ub1 (time_Second value)) (ub4 (time_Nanosecond value)) zone (length zone)) (b, w)
            (\<lambda>r (b, w).
              if r_status r = OCI_ERROR
              then env_ociError N (b, w) (\<lambda>e st. (Returns (Some e), st))
              else native_call N
                (OCIBINDBYPOS (ocistmt s) (ub4 position) (ociDateTime b) SQLT_TIMESTAMP_TZ) (b, w)
                (\<lambda>r (b, w).
                  let b = b\<lparr>ocibnd := r_handle r\<rparr> in
                  if r_status r = OCI_ERROR
                  then env_ociError N (b, w) (\<lambda>e st. (Returns (Some e), st))
                  else (Returns None, b, w))))))"

definition bndTime_release :: "bndTime \<times> world \<Rightarrow> error option outcome \<times> bndTime \<times> world" where
  "bndTime_release st =
     (let s = stmt (fst st);
          b = (fst st)\<lparr>stmt := None, ocibnd := None, ociDateTime := None, zoneBuf := []\<rparr>
      in put_and_return s bndIdxTime (BndTime b) b (snd st))"

definition bndTime_close ::
  "native \<Rightarrow> bndTime \<times> world \<Rightarrow> error option outcome \<times> bndTime \<times> world" where
  "bndTime_close N st =
     recover_err
       (if cZone (fst st) \<noteq> None
        then native_call N (C_free (cZone (fst st))) st
          (\<lambda>r (b, w).
            native_call N (OCIDescriptorFree (ociDateTime b) OCI_DTYPE_TIMESTAMP_TZ)
              (b\<lparr>cZone := None\<rparr>, w)
              (\<lambda>r. bndTime_release))
        else bndTime_release st)"

subsection \<open>bndLob: allocation, registration and close\<close>

text \<open>
  \<^verbatim>\<open>allocTempLob(stmt)\<close> returns the locator and an error; the closure \<^verbatim>\<open>finish\<close> it
  returns beside them is the function \<open>finish\<close> below, applied to the same locator.
\<close>

definition allocTempLob ::
  "native \<Rightarrow> Stmt \<Rightarrow> 'b \<times> world \<Rightarrow> (handle \<times> error option) outcome \<times> 'b \<times> world" where
  "allocTempLob N s st =
     native_call N (OCIDescriptorAlloc OCI_DTYPE_LOB) st
      (\<lambda>r st.
        if r_status r = OCI_ERROR then env_ociError N st (\<lambda>e st. (Returns (None, Some e), st))
        else if r_status r = OCI_INVALID_HANDLE
        then (Returns (None, Some (errNew ''unable to allocate oci lob handle during bind'')), st)
        else native_call N (OCILobCreateTemporary (r_handle r)) st
          (\<lambda>r2 st.
            if r_status r2 = OCI_ERROR
            then native_call N (OCIDescriptorFree (r_handle r) OCI_DTYPE_LOB) st
              (\<lambda>r3 st. env_ociError N st (\<lambda>e st. (Returns (None, Some e), st)))
            else (Returns (r_handle r, None), st)))"

definition finish ::
  "native \<Rightarrow> handle \<Rightarrow> 'b \<times> world \<Rightarrow> ('b \<times> world \<Rightarrow> 'r outcome \<times> 'b \<times> world)
     \<Rightarrow> 'r outcome \<times> 'b \<times> world" where
  "finish N locp st k =
     native_call N (OCILobFreeTemporary locp) st
      (\<lambda>r st. native_call N (OCIDescriptorFree locp OCI_DTYPE_LOB) st (\<lambda>r. k))"

definition bndLob_allocTempLob ::
  "native \<Rightarrow> bndLob \<times> world \<Rightarrow> error option outcome \<times> bndLob \<times> world" where
  "bndLob_allocTempLob N st =
     (case stmt (fst st) of
        None \<Rightarrow> (Panics NilDereference, st)
      | Some s \<Rightarrow>
          (case allocTempLob N s st of
             (Panics v, st1) \<Rightarrow> (Panics v, st1)
           | (Returns (l, e), b, w) \<Rightarrow> (Returns e, b\<lparr>ociLobLocator := l\<rparr>, w)))"

definition bndLob_bindByPos ::
  "native \<Rightarrow> int \<Rightarrow> bndLob \<times> world \<Rightarrow> error option outcome \<times> bndLob \<times> world" where
  "bndLob_bindByPos N position st =
     (case stmt (fst st) of
        None \<Rightarrow> (Panics NilDereference, st)
      | Some s \<Rightarrow>
          native_call N (OCIBINDBYPOS (ocistmt s) (ub4 position) (ociLobLocator (fst st)) SQLT_BLOB) st
            (\<lambda>r (b, w).
              let b = b\<lparr>ocibnd := r_handle r\<rparr> in
              if r_status r = OCI_ERROR then env_ociError N (b, w) (\<lambda>e st. (Returns (Some e), st))
              else (Returns None, b, w)))"

definition bndLob_close ::
  "native \<Rightarrow> bndLob \<times> world \<Rightarrow> error option outcome \<times> bndLob \<times> world" where
  "bndLob_close N st =
     recover_err
       (case stmt (fst st) of
          None \<Rightarrow> (Panics NilDereference, st)
        | Some s0 \<Rightarrow>
            native_call N (OCILobFreeTemporary (ociLobLocator (fst st))) st
              (\<lambda>r (b, w).
                native_call N (OCIDescriptorFree (ociLobLocator b) OCI_DTYPE_LOB) (b, w)
                  (\<lambda>r (b, w).
                    let s = stmt b;
                        b = b\<lparr>stmt := None, ocibnd := None, ociLobLocator := None\<rparr>
                    in put_and_return s bndIdxLob (BndLob b) b w)))"

subsection \<open>bndInt64Slice: close\<close>

text \<open>
  \<^verbatim>\<open>arrHlp.close\<close> is not in the sources at hand: it is the parameter \<open>arrHlp_close\<close>,
  any function on the helper's own fields.
\<close>

definition bndInt64Slice_close ::
  "(arrHlp \<Rightarrow> arrHlp) \<Rightarrow> bndInt64Slice \<times> world
     \<Rightarrow> error option outcome \<times> bndInt64Slice \<times> world" where
  "bndInt64Slice_close arrHlp_close st =
     recover_err
       (let s = stmt (fst st);
            b = (fst st)\<lparr>stmt := None, ocibnd := None, valuesp := None\<rparr>;
            b = b\<lparr>hlp := arrHlp_close (hlp b)\<rparr>
        in put_and_return s bndIdxInt64Slice (BndInt64Slice b) b (snd st))"

section \<open>The integer-slice binder (src/bndIntervalDS.go, second part)\<close>


text \<open>
  \<^verbatim>\<open>append(s, v)\<close> for one element: in place when the capacity allows, into a new array
  otherwise. How much a new array holds is the Go runtime's choice: \<open>grow\<close> proposes a
  capacity from the old one, and the array holds at least the elements.
\<close>

definition append1 :: "(nat \<Rightarrow> nat) \<Rightarrow> 'a \<Rightarrow> 'a slice \<Rightarrow> 'a \<Rightarrow> 'a slice" where
  "append1 grow z s v =
     (if len s < cap s then \<lparr>arr = (arr s)[len s := v], len = Suc (len s)\<rparr>
      else \<lparr>arr = elems s @ v # replicate (max (grow (cap s)) (Suc (len s)) - Suc (len s)) z,
            len = Suc (len s)\<rparr>)"

text \<open>A well-formed slice: its length does not exceed its capacity.\<close>

definition wf_slice :: "'a slice \<Rightarrow> bool" where
  "wf_slice s = (len s \<le> cap s)"

abbreviation sizeof_OCINumber :: nat where
  "sizeof_OCINumber \<equiv> 22"

text \<open>
  The loop of \<^verbatim>\<open>bindOra\<close> over the caller's values, from row \<open>n\<close> on, on the
  indicator array and the integer buffer.
\<close>

fun bindOra_loop :: "Int64 list \<Rightarrow> nat \<Rightarrow> int slice \<Rightarrow> int slice \<Rightarrow> (int slice \<times> int slice) outcome" where
  "bindOra_loop [] n inds is = Returns (inds, is)"
| "bindOra_loop (v # vs) n inds is =
     (if IsNull v
      then (case set_elem inds n (sb2 (- 1)) of
              Panics p \<Rightarrow> Panics p
            | Returns inds' \<Rightarrow> bindOra_loop vs (Suc n) inds' is)
      else (case set_elem inds n 0 of
              Panics p \<Rightarrow> Panics p
            | Returns inds' \<Rightarrow>
                (case set_elem is n (Value v) of
                   Panics p \<Rightarrow> Panics p
                 | Returns is' \<Rightarrow> bindOra_loop vs (Suc n) inds' is')))"

text \<open>
  \<^verbatim>\<open>bindOra\<close> up to its last statement: the binder as it is when \<^verbatim>\<open>bnd.bind\<close> is
  called on \<^verbatim>\<open>bnd.ints\<close>. The argument \<open>vals\<close> is the slice the pointer \<^verbatim>\<open>values\<close>
  points to.
\<close>

definition bindOra_marshal :: "Int64 slice \<Rightarrow> bndInt64Slice \<Rightarrow> bndInt64Slice outcome" where
  "bindOra_marshal vals b =
     (let L = len vals; C = cap vals
      in case (if cap (ints b) < C then make_slice 0 L C else reslice (ints b) L) of
           Panics p \<Rightarrow> Panics p
         | Returns is \<Rightarrow>
             (case (if cap (nullInds (hlp b)) < C then make_slice 0 L C
                    else reslice (nullInds (hlp b)) L) of
                Panics p \<Rightarrow> Panics p
              | Returns inds \<Rightarrow>
                  (case bindOra_loop (elems vals) 0 inds is of
                     Panics p \<Rightarrow> Panics p
                   | Returns (inds', is') \<Rightarrow>
                       Returns (b\<lparr>ints := is', hlp := (hlp b)\<lparr>nullInds := inds'\<rparr>,
                                  valuesp := Some vals\<rparr>))))"

text \<open>
  The conversion loop of \<^verbatim>\<open>bind\<close>, from row \<open>n\<close> on: the actual length is recorded,
  the native conversion stores the number, and a status of OCI_ERROR ends the loop (the
  flag is then \<open>False\<close>). \<^verbatim>\<open>OCINumberFromInt\<close> is the parameter \<open>fromInt\<close>: the status
  and the number it produces.
\<close>

fun fromInt_loop ::
  "(int \<Rightarrow> int \<times> OCINumber) \<Rightarrow> int list \<Rightarrow> nat \<Rightarrow> nat slice \<Rightarrow> OCINumber slice
     \<Rightarrow> (bool \<times> nat slice \<times> OCINumber slice) outcome" where
  "fromInt_loop fromInt [] n al nums = Returns (True, al, nums)"
| "fromInt_loop fromInt (v # vs) n al nums =
     (case set_elem al n sizeof_OCINumber of
        Panics p \<Rightarrow> Panics p
      | Returns al' \<Rightarrow>
          (case set_elem nums n (snd (fromInt v)) of
             Panics p \<Rightarrow> Panics p
           | Returns nums' \<Rightarrow>
               if fst (fromInt v) = OCI_ERROR then Returns (False, al', nums')
               else fromInt_loop fromInt vs (Suc n) al' nums'))"

text \<open>
  \<^verbatim>\<open>bind\<close>. \<^verbatim>\<open>arrHlp.ensureBindArrLength\<close> is not in the sources at hand: it is the
  parameter \<open>E\<close>, which from the helper, the length, the capacity and the statement type
  gives the iteration count, whether a current-length pointer is passed, whether an
  element is to be appended, the new length and capacity, and the helper as it leaves
  it (or panics).
\<close>

type_synonym ensureBindArrLength =
  "arrHlp \<Rightarrow> nat \<Rightarrow> nat \<Rightarrow> nat \<Rightarrow> (nat \<times> bool \<times> bool \<times> nat \<times> nat \<times> arrHlp) outcome"

text \<open>The number buffer for length \<open>L\<close> and capacity \<open>C\<close>: made anew or resliced.\<close>

definition resize_numbers :: "OCINumber slice \<Rightarrow> nat \<Rightarrow> nat \<Rightarrow> OCINumber slice outcome" where
  "resize_numbers nums L C =
     (if cap nums < C then make_slice (replicate sizeof_OCINumber 0) L C else reslice nums L)"

text \<open>
  The two registrations at the end of \<^verbatim>\<open>bind\<close>. Taking the address of the first
  element of an empty slice panics.
\<close>

definition bind_register ::
  "native \<Rightarrow> nat \<Rightarrow> bool \<Rightarrow> int \<Rightarrow> Stmt \<Rightarrow> bndInt64Slice \<times> world
     \<Rightarrow> (nat \<times> error option) outcome \<times> bndInt64Slice \<times> world" where
  "bind_register N iterations curlenp position s st =
     (let b = fst st
      in if len (ociNumbers b) = 0 \<or> len (nullInds (hlp b)) = 0
            \<or> len (alen (hlp b)) = 0 \<or> len (rcode (hlp b)) = 0
         then (Panics IndexOutOfRange, st)
         else native_call N
           (OCIBINDBYPOS_array (ocistmt s) (ub4 position)
              (elems (ociNumbers b)) (elems (nullInds (hlp b)))
              (elems (alen (hlp b))) (elems (rcode (hlp b)))
              (cap (ociNumbers b)) curlenp) st
           (\<lambda>r (b, w).
             let b = b\<lparr>ocibnd := r_handle r\<rparr> in
             if r_status r = OCI_ERROR
             then env_ociError N (b, w) (\<lambda>e st. (Returns (iterations, Some e), st))
             else native_call N (OCIBindArrayOfStruct (ocibnd b)) (b, w)
               (\<lambda>r st.
                 if r_status r = OCI_ERROR
                 then env_ociError N st (\<lambda>e st. (Returns (iterations, Some e), st))
                 else (Returns (iterations, None), st))))"

definition bndInt64Slice_bind ::
  "native \<Rightarrow> ensureBindArrLength \<Rightarrow> (nat \<Rightarrow> nat) \<Rightarrow> (int \<Rightarrow> int \<times> OCINumber)
     \<Rightarrow> int slice \<Rightarrow> int \<Rightarrow> Stmt \<Rightarrow> bndInt64Slice \<times> world
     \<Rightarrow> (nat \<times> error option) outcome \<times> bndInt64Slice \<times> world" where
  "bndInt64Slice_bind N E grow fromInt vals position s st =
     (let b = (fst st)\<lparr>stmt := Some s\<rparr>; w = snd st
      in case E (hlp b) (len vals) (cap vals) (stmtType s) of
           Panics p \<Rightarrow> (Panics p, b, w)
         | Returns (iterations, curlenp, needAppend, L, C, h) \<Rightarrow>
             (let vals = (if needAppend then append1 grow 0 vals 0 else vals);
                  b = b\<lparr>hlp := h, ints := vals\<rparr>
              in case resize_numbers (ociNumbers b) L C of
                   Panics p \<Rightarrow> (Panics p, b, w)
                 | Returns nums \<Rightarrow>
                     (case fromInt_loop fromInt (elems vals) 0 (alen h) nums of
                        Panics p \<Rightarrow> (Panics p, b\<lparr>ociNumbers := nums\<rparr>, w)
                      | Returns (ok, al, nums) \<Rightarrow>
                          (let b = b\<lparr>ociNumbers := nums, hlp := h\<lparr>alen := al\<rparr>\<rparr>
                           in if \<not> ok
                              then env_ociError N (b, w) (\<lambda>e st. (Returns (iterations, Some e), st))
                              else bind_register N iterations curlenp position s (b, w)))))"

definition bndInt64Slice_bindOra ::
  "native \<Rightarrow> ensureBindArrLength \<Rightarrow> (nat \<Rightarrow> nat) \<Rightarrow> (int \<Rightarrow> int \<times> OCINumber)
     \<Rightarrow> Int64 slice \<Rightarrow> int \<Rightarrow> Stmt \<Rightarrow> bndInt64Slice \<times> world
     \<Rightarrow> (nat \<times> error option) outcome \<times> bndInt64Slice \<times> world" where
  "bndInt64Slice_bindOra N E grow fromInt vals position s st =
     (case bindOra_marshal vals (fst st) of
        Panics p \<Rightarrow> (Panics p, st)
      | Returns b \<Rightarrow> bndInt64Slice_bind N E grow fromInt (ints b) position s (b, snd st))"




section \<open>Concrete inputs\<close>

text \<open>
  A live statement, a world in which nothing has happened yet, and native environments
  given by the list of their first status words (every later call answers 0, success;
  the \<open>i\<close>-th call hands out handle \<open>100 + i\<close> and amount 0).
\<close>

definition live_stmt :: Stmt where
  "live_stmt =
     \<lparr>stmt_id = 1,
      ses = \<lparr>ses_id = 2, srv = \<lparr>srv_id = 3, env = \<lparr>env_id = 4, ocienv = Some 10, ocierr = Some 11\<rparr>\<rparr>,
             ocisvcctx = Some 12\<rparr>,
      ocistmt = Some 13, stmtType = 1\<rparr>"

definition no_calls :: world where
  "no_calls = \<lparr>calls = [], pools = []\<rparr>"

definition answers :: "int list \<Rightarrow> native" where
  "answers xs i =
     Returns \<lparr>r_status = (if i < length xs then xs ! i else 0), r_handle = Some (100 + i), r_amt = 0\<rparr>"

definition panics_at :: "nat \<Rightarrow> native" where
  "panics_at n i =
     (if i = n then Panics (NativePanic ''free'')
      else Returns \<lparr>r_status = 0, r_handle = Some (100 + i), r_amt = 0\<rparr>)"

definition idle_bndIntervalDS :: bndIntervalDS where
  "idle_bndIntervalDS = \<lparr>stmt = None, ocibnd = None, ociInterval = None\<rparr>"

definition idle_bndTime :: bndTime where
  "idle_bndTime = \<lparr>stmt = None, ocibnd = None, ociDateTime = None, cZone = None, zoneBuf = []\<rparr>"

definition idle_bndLob :: bndLob where
  "idle_bndLob = \<lparr>stmt = None, ocibnd = None, ociLobLocator = None\<rparr>"

definition noon :: Time where
  "noon = \<lparr>time_Year = 2015, time_Month = 3, time_Day = 9, time_Hour = 12, time_Minute = 0,
      time_Second = 0, time_Nanosecond = 0, time_Zone = (''CET'', 3600)\<rparr>"

definition one_day :: IntervalDS where
  "one_day = \<lparr>Day = 1, Hour = 0, Minute = 0, Second = 0, Nanosecond = 0\<rparr>"

definition bound_bndIntervalDS :: bndIntervalDS where
  "bound_bndIntervalDS = \<lparr>stmt = Some live_stmt, ocibnd = Some 6, ociInterval = Some 7\<rparr>"

definition bound_bndTime :: bndTime where
  "bound_bndTime =
     \<lparr>stmt = Some live_stmt, ocibnd = Some 6, ociDateTime = Some 7, cZone = Some 8,
      zoneBuf = ''+01:00''\<rparr>"

definition bound_bndLob :: bndLob where
  "bound_bndLob = \<lparr>stmt = Some live_stmt, ocibnd = Some 6, ociLobLocator = Some 7\<rparr>"

definition no_arrHlp :: arrHlp where
  "no_arrHlp =
     \<lparr>curlen = 0, nullInds = \<lparr>arr = [], len = 0\<rparr>, alen = \<lparr>arr = [], len = 0\<rparr>,
      rcode = \<lparr>arr = [], len = 0\<rparr>, IsAssocArr = False\<rparr>"

definition bound_bndInt64Slice :: bndInt64Slice where
  "bound_bndInt64Slice =
     \<lparr>stmt = Some live_stmt, ocibnd = Some 6,
      ociNumbers = \<lparr>arr = [[2, 193, 8]], len = 1\<rparr>,
      valuesp = Some \<lparr>arr = [\<lparr>IsNull = False, Value = 7\<rparr>], len = 1\<rparr>,
      ints = \<lparr>arr = [7], len = 1\<rparr>,
      hlp = no_arrHlp\<lparr>curlen := 1, nullInds := \<lparr>arr = [0], len = 1\<rparr>,
              alen := \<lparr>arr = [22], len = 1\<rparr>, rcode := \<lparr>arr = [0], len = 1\<rparr>\<rparr>\<rparr>"

text \<open>
  For the integer-slice binder: a binder that has not been used, two rows of which the
  second is null, and stand-ins for the parts that are parameters. The native number of
  an integer is here its sign byte followed by as many zero bytes as its magnitude, so that
  converting back is exact; the helper \<open>assoc_arr_helper\<close> treats every statement as one
  with an associative-array parameter and sizes its arrays to the length and capacity
  asked for.
\<close>

definition fresh_bndInt64Slice :: bndInt64Slice where
  "fresh_bndInt64Slice =
     \<lparr>stmt = None, ocibnd = None, ociNumbers = \<lparr>arr = [], len = 0\<rparr>, valuesp = None,
      ints = \<lparr>arr = [], len = 0\<rparr>, hlp = no_arrHlp\<rparr>"

definition two_rows :: "Int64 slice" where
  "two_rows = \<lparr>arr = [\<lparr>IsNull = False, Value = 3\<rparr>, \<lparr>IsNull = True, Value = 9\<rparr>], len = 2\<rparr>"

definition unary_fromInt :: "int \<Rightarrow> int \<times> OCINumber" where
  "unary_fromInt x = (0, (if x < 0 then 1 else 0) # replicate (nat \<bar>x\<bar>) 0)"



definition double :: "nat \<Rightarrow> nat" where
  "double c = 2 * c"




text \<open>
  Modelled from the spec: \<^verbatim>\<open>arrHlp.ensureBindArrLength\<close> is not in the sources at hand.
  The spec has the helper's arrays reused and grown, never shrunk, all of the logical
  length of the value buffer, and has an associative-array parameter padded by one
  synthetic slot. \<open>padding_helper\<close> is a helper of this kind, for the concrete inputs
  below: it treats every statement as one with an associative-array parameter, asks for
  length one when the length is zero (and for capacity one and an appended element when
  the capacity is zero too), and gives each of its three arrays the length and capacity
  asked for, re-slicing the array when its capacity suffices and making it anew otherwise.
\<close>

definition resize :: "'a \<Rightarrow> 'a slice \<Rightarrow> nat \<Rightarrow> nat \<Rightarrow> 'a slice outcome" where
  "resize z s L C = (if cap s < C then make_slice z L C else reslice s L)"

definition padding_helper :: ensureBindArrLength where
  "padding_helper h L C t =
     (let L' = (if L = 0 then 1 else L); C' = (if L = 0 \<and> C = 0 then 1 else C)
      in case resize 0 (nullInds h) L' C' of
           Panics p \<Rightarrow> Panics p
         | Returns ni \<Rightarrow>
             (case resize 0 (alen h) L' C' of
                Panics p \<Rightarrow> Panics p
              | Returns al \<Rightarrow>
                  (case resize 0 (rcode h) L' C' of
                     Panics p \<Rightarrow> Panics p
                   | Returns rc \<Rightarrow>
                       Returns (1, True, L = 0 \<and> C = 0, L', C',
                         h\<lparr>curlen := L, nullInds := ni, alen := al, rcode := rc,
                           IsAssocArr := True\<rparr>))))"

text \<open>
  The slice with no rows; the unused binder as \<^verbatim>\<open>bindOra\<close> hands it to \<^verbatim>\<open>bind\<close> for
  the two rows; and the helper as \<open>padding_helper\<close> leaves it there.
\<close>

definition no_rows :: "Int64 slice" where
  "no_rows = \<lparr>arr = [], len = 0\<rparr>"

definition marshalled_two_rows :: bndInt64Slice where
  "marshalled_two_rows =
     \<lparr>stmt = None, ocibnd = None, ociNumbers = \<lparr>arr = [], len = 0\<rparr>,
      valuesp = Some two_rows,
      ints = \<lparr>arr = [3, 0], len = 2\<rparr>,
      hlp = \<lparr>curlen = 0, nullInds = \<lparr>arr = [0, - 1], len = 2\<rparr>,
             alen = \<lparr>arr = [], len = 0\<rparr>, rcode = \<lparr>arr = [], len = 0\<rparr>,
             IsAssocArr = False\<rparr>\<rparr>"

definition sized_arrHlp :: arrHlp where
  "sized_arrHlp =
     \<lparr>curlen = 2, nullInds = \<lparr>arr = [0, - 1], len = 2\<rparr>,
      alen = \<lparr>arr = [0, 0], len = 2\<rparr>, rcode = \<lparr>arr = [0, 0], len = 2\<rparr>,
      IsAssocArr = True\<rparr>"

section \<open>The driver statement (src/drvStmt.go)\<close>

text \<open>
  \<^verbatim>\<open>DrvStmt\<close> wraps a statement pointer, nil once the statement is closed. The methods
  of the wrapped \<^verbatim>\<open>Stmt\<close> (\<^verbatim>\<open>Close\<close>, \<^verbatim>\<open>NumInput\<close>, \<^verbatim>\<open>exe\<close>, \<^verbatim>\<open>qry\<close>) are not
  in the sources at hand: they are parameters of the functions below. The logger's output
  is not tracked; what matters of \<^verbatim>\<open>log\<close> is that it evaluates \<^verbatim>\<open>ds.sysName()\<close>.
\<close>

record DrvStmt =
  drv_stmt :: "Stmt option"

datatype drv_result = ResultNoRows | DrvExecResult nat int

datatype 'r drv_rows = DrvQueryResult 'r

definition checkIsOpen :: "DrvStmt \<Rightarrow> error option" where
  "checkIsOpen ds = (if drv_stmt ds = None then Some (er ''DrvStmt is closed.'') else None)"

definition sysName :: "DrvStmt \<Rightarrow> string outcome" where
  "sysName ds =
     (case drv_stmt ds of
        None \<Rightarrow> Panics NilDereference
      | Some s \<Rightarrow>
          Returns (''E'' @ decimal (env_id (env (srv (ses s)))) @ ''S'' @ decimal (srv_id (srv (ses s)))
                   @ ''S'' @ decimal (ses_id (ses s)) @ ''S'' @ decimal (stmt_id s)))"

definition drv_log :: "DrvStmt \<Rightarrow> bool \<Rightarrow> unit outcome" where
  "drv_log ds enabled =
     (if enabled
      then (case sysName ds of Panics v \<Rightarrow> Panics v | Returns name \<Rightarrow> Returns ())
      else Returns ())"

definition drv_Close :: "(Stmt \<Rightarrow> error option) \<Rightarrow> DrvStmt \<Rightarrow> error option outcome" where
  "drv_Close stmt_Close ds =
     (case drv_log ds True of
        Panics v \<Rightarrow> Panics v
      | Returns u \<Rightarrow>
          (case checkIsOpen ds of
             Some err \<Rightarrow> Returns (Some (errE err))
           | None \<Rightarrow>
               (case drv_stmt ds of
                  None \<Rightarrow> Panics NilDereference
                | Some s \<Rightarrow>
                    (case stmt_Close s of
                       Some err \<Rightarrow> Returns (Some (errE err))
                     | None \<Rightarrow> Returns None))))"

definition drv_NumInput :: "(Stmt \<Rightarrow> int) \<Rightarrow> DrvStmt \<Rightarrow> int" where
  "drv_NumInput stmt_NumInput ds =
     (case drv_stmt ds of None \<Rightarrow> 0 | Some s \<Rightarrow> stmt_NumInput s)"

definition drv_Exec ::
  "(Stmt \<Rightarrow> 'v list \<Rightarrow> nat \<times> int \<times> error option) \<Rightarrow> DrvStmt \<Rightarrow> 'v list
     \<Rightarrow> (drv_result option \<times> error option) outcome" where
  "drv_Exec stmt_exe ds vals =
     (case drv_log ds True of
        Panics v \<Rightarrow> Panics v
      | Returns u \<Rightarrow>
          (case checkIsOpen ds of
             Some err \<Rightarrow> Returns (None, Some (errE err))
           | None \<Rightarrow>
               (case drv_stmt ds of
                  None \<Rightarrow> Panics NilDereference
                | Some s \<Rightarrow>
                    (let params = map (\<lambda>n. vals ! n) [0 ..< length vals];
                         (rowsAffected, lastInsertId, err) = stmt_exe s params
                     in case err of
                          Some e \<Rightarrow> Returns (None, Some (errE e))
                        | None \<Rightarrow>
                            if rowsAffected = 0 then Returns (Some ResultNoRows, None)
                            else Returns (Some (DrvExecResult rowsAffected lastInsertId), None)))))"

definition drv_Query ::
  "(Stmt \<Rightarrow> 'v list \<Rightarrow> 'r \<times> error option) \<Rightarrow> DrvStmt \<Rightarrow> 'v list
     \<Rightarrow> ('r drv_rows option \<times> error option) outcome" where
  "drv_Query stmt_qry ds vals =
     (case drv_log ds True of
        Panics v \<Rightarrow> Panics v
      | Returns u \<Rightarrow>
          (case checkIsOpen ds of
             Some err \<Rightarrow> Returns (None, Some (errE err))
           | None \<Rightarrow>
               (case drv_stmt ds of
                  None \<Rightarrow> Panics NilDereference
                | Some s \<Rightarrow>
                    (let params = map (\<lambda>n. vals ! n) [0 ..< length vals];
                         (rset, err) = stmt_qry s params
                     in case err of
                          Some e \<Rightarrow> Returns (None, Some (errE e))
                        | None \<Rightarrow> Returns (Some (DrvQueryResult rset), None)))))"

section \<open>LOB streaming (src/bndLob.go)\<close>

text \<open>
  A byte source: the bytes it still has to deliver and the error its \<^verbatim>\<open>Read\<close> returns
  once they are used up (\<open>io_EOF\<close> for a source that ends cleanly).
  \<^verbatim>\<open>io.ReadFull(r, buf)\<close> with \<open>m = len(buf)\<close> fills the buffer if it can; otherwise it
  returns what there was, with the source's error, or \<open>io_ErrUnexpectedEOF\<close> when
  that error is \<open>io_EOF\<close> and some bytes were read. It returns the number of bytes read,
  the error, the bytes themselves and the source after the read.
\<close>

record reader =
  data :: "byte list"
  fin :: error

definition ReadFull :: "reader \<Rightarrow> nat \<Rightarrow> nat \<times> error option \<times> byte list \<times> reader" where
  "ReadFull r m =
     (if m \<le> length (data r)
      then (m, None, take m (data r), r\<lparr>data := drop m (data r)\<rparr>)
      else (length (data r),
            Some (if 0 < length (data r) \<and> fin r = io_EOF then io_ErrUnexpectedEOF else fin r),
            data r, r\<lparr>data := []\<rparr>))"

text \<open>
  The local variables of \<^verbatim>\<open>writeLob\<close>. The two buffers are slices (backing array,
  length) into the byte arrays of \<open>mem\<close> (array, index), so that two slices of one
  array see each other's bytes.
\<close>

record lobState =
  rdr :: reader
  mem :: "nat \<Rightarrow> nat \<Rightarrow> byte"
  actBuf :: "nat \<times> nat"
  nextBuf :: "nat \<times> nat"
  actPiece :: piece
  nextPiece :: piece
  off :: "64 word"

definition store :: "(nat \<Rightarrow> nat \<Rightarrow> byte) \<Rightarrow> nat \<Rightarrow> byte list \<Rightarrow> nat \<Rightarrow> nat \<Rightarrow> byte" where
  "store m a bs = m(a := (\<lambda>i. if i < length bs then bs ! i else m a i))"

definition contents :: "lobState \<Rightarrow> nat \<times> nat \<Rightarrow> byte list" where
  "contents s buf = map (mem s (fst buf)) [0 ..< snd buf]"

text \<open>
  The buffers. When the chunk size covers the requested size, both slices are taken from
  the one array variable \<^verbatim>\<open>arr\<close>, which the second \<^verbatim>\<open>lobChunkPool.Get()\<close> overwrites
  in place (array 0); otherwise two arrays are made (arrays 0 and 1). The pool is not in
  the sources at hand: the arrays it hands out are taken to be zeroed, as made ones are.
\<close>

definition lobBuffers :: "int \<Rightarrow> int \<Rightarrow> ((nat \<times> nat) \<times> (nat \<times> nat)) outcome" where
  "lobBuffers lobChunkSize lobBufferSize =
     (if lobChunkSize \<ge> lobBufferSize
      then (if lobBufferSize < 0 then Panics SliceBoundsOutOfRange
            else Returns ((0, nat lobBufferSize), (0, nat lobBufferSize)))
      else (if lobBufferSize < 0 then Panics MakeSliceLenOutOfRange
            else Returns ((0, nat lobBufferSize), (1, nat lobBufferSize))))"

text \<open>The read ahead into \<open>nextBuf\<close>; \<open>Some e\<close> is \<^verbatim>\<open>return err\<close>.\<close>

definition read_next :: "lobState \<Rightarrow> error option \<times> lobState" where
  "read_next s =
     (let (n2, err, bs, r') = ReadFull (rdr s) (snd (nextBuf s));
          s = s\<lparr>rdr := r', mem := store (mem s) (fst (nextBuf s)) bs\<rparr>
      in case err of
           None \<Rightarrow> (None, s)
         | Some e \<Rightarrow>
             if e = io_EOF
             then (None, s\<lparr>actPiece := (if actPiece s = OCI_FIRST_PIECE then OCI_ONE_PIECE
                                         else OCI_LAST_PIECE),
                           nextBuf := (fst (nextBuf s), n2)\<rparr>)
             else if e = io_ErrUnexpectedEOF
             then (None, s\<lparr>nextPiece := OCI_LAST_PIECE, nextBuf := (fst (nextBuf s), n2)\<rparr>)
             else (Some e, s))"

text \<open>
  One round of the \<^verbatim>\<open>for\<close> loop. The result \<open>Returns None\<close> is the end of the loop
  body (the loop goes on), \<open>Returns (Some e)\<close> is \<^verbatim>\<open>return e\<close> (with \<^verbatim>\<open>break\<close>
  followed by \<^verbatim>\<open>return nil\<close> as \<open>Returns (Some None)\<close>).
\<close>

definition writeLob_iter ::
  "native \<Rightarrow> handle \<Rightarrow> int \<Rightarrow> lobState \<times> world
     \<Rightarrow> error option option outcome \<times> lobState \<times> world" where
  "writeLob_iter N locp lobBufferSize st =
     (let n = snd (actBuf (fst st));
          (err, s) = (if int n = lobBufferSize then read_next (fst st) else (None, fst st))
      in case err of
           Some e \<Rightarrow> (Returns (Some (Some e)), s, snd st)
         | None \<Rightarrow>
             let byte_amtp = (if actPiece s = OCI_ONE_PIECE then of_nat n else 0)
             in if n = 0 then (Panics IndexOutOfRange, s, snd st)
                else native_call N
                  (OCILobWrite2 locp byte_amtp (off s + 1) (contents s (actBuf s)) (of_nat n)
                     (actPiece s)) (s, snd st)
                  (\<lambda>r (s, w).
                    if r_status r = OCI_ERROR
                    then env_ociError N (s, w) (\<lambda>e st. (Returns (Some (Some e)), st))
                    else let s = s\<lparr>off := off s + r_amt r\<rparr>
                         in if actPiece s = OCI_LAST_PIECE \<or> actPiece s = OCI_ONE_PIECE
                            then (Returns (Some None), s, w)
                            else (Returns None,
                                  s\<lparr>actPiece := nextPiece s, actBuf := nextBuf s\<rparr>, w)))"

partial_function (option) writeLob_loop ::
  "native \<Rightarrow> handle \<Rightarrow> int \<Rightarrow> lobState \<times> world
     \<Rightarrow> (error option outcome \<times> lobState \<times> world) option" where
  "writeLob_loop N locp lobBufferSize st =
     (case writeLob_iter N locp lobBufferSize st of
        (Panics v, st1) \<Rightarrow> Some (Panics v, st1)
      | (Returns (Some res), st1) \<Rightarrow> Some (Returns res, st1)
      | (Returns None, st1) \<Rightarrow> writeLob_loop N locp lobBufferSize st1)"

text \<open>
  \<^verbatim>\<open>writeLob\<close>: the result is \<open>None\<close> if the loop does not end; otherwise the error
  returned (or the panic), the byte source as it is left, and the world.
\<close>

definition writeLob ::
  "native \<Rightarrow> int \<Rightarrow> handle \<Rightarrow> Stmt \<Rightarrow> reader \<Rightarrow> int \<Rightarrow> world
     \<Rightarrow> (error option outcome \<times> reader \<times> world) option" where
  "writeLob N lobChunkSize locp s r lobBufferSize w =
     (case lobBuffers lobChunkSize lobBufferSize of
        Panics v \<Rightarrow> Some (Panics v, r, w)
      | Returns (act, nxt) \<Rightarrow>
          (let (n, err, bs, r') = ReadFull r (snd act);
               s0 = \<lparr>rdr = r', mem = store (\<lambda>a i. 0) (fst act) bs, actBuf = act, nextBuf = nxt,
                     actPiece = OCI_FIRST_PIECE, nextPiece = OCI_NEXT_PIECE, off = 0\<rparr>;
               start = (\<lambda>s0. map_option (\<lambda>(res, s1, w1). (res, rdr s1, w1))
                                (writeLob_loop N locp lobBufferSize (s0, w)))
           in case err of
                None \<Rightarrow> start s0
              | Some e \<Rightarrow>
                  if e = io_EOF
                  then Some (Returns (Some (errNew ''writing a zero-length BLOB is unsupported'')), r', w)
                  else if e = io_ErrUnexpectedEOF
                  then start (s0\<lparr>actPiece := OCI_ONE_PIECE, actBuf := (fst act, n)\<rparr>)
                  else Some (Returns (Some e), r', w)))"

text \<open>
  \<^verbatim>\<open>bindReader\<close>. The session's \<^verbatim>\<open>Break()\<close> is not in the sources at hand; it is the
  native call \<open>OCIBreak\<close>, whose answer the code ignores. \<open>lobChunkSize\<close> is a constant
  of the package that the sources at hand do not give: it is a parameter.
\<close>

definition bndLob_bindReader ::
  "native \<Rightarrow> int \<Rightarrow> reader \<Rightarrow> int \<Rightarrow> int \<Rightarrow> Stmt \<Rightarrow> bndLob \<times> world
     \<Rightarrow> (error option outcome \<times> reader \<times> bndLob \<times> world) option" where
  "bndLob_bindReader N lobChunkSize r position lobBufferSize s st =
     (let b = (fst st)\<lparr>stmt := Some s\<rparr>;
          lobBufferSize = (if lobBufferSize \<le> 0 then lobChunkSize else lobBufferSize)
      in case bndLob_allocTempLob N (b, snd st) of
           (Panics v, st1) \<Rightarrow> Some (Panics v, r, st1)
         | (Returns (Some err), st1) \<Rightarrow> Some (Returns (Some err), r, st1)
         | (Returns None, b1, w1) \<Rightarrow>
             (case writeLob N lobChunkSize (ociLobLocator b1) s r lobBufferSize w1 of
                None \<Rightarrow> None
              | Some (Panics v, r2, w2) \<Rightarrow> Some (Panics v, r2, b1, w2)
              | Some (Returns (Some err), r2, w2) \<Rightarrow>
                  (case native_call N OCIBreak (b1, w2)
                          (\<lambda>a st. finish N (ociLobLocator b1) st (\<lambda>st. (Returns (Some err), st))) of
                     (res, st3) \<Rightarrow> Some (res, r2, st3))
              | Some (Returns None, r2, w2) \<Rightarrow>
                  (case bndLob_bindByPos N position (b1, w2) of
                     (Returns (Some err), st3) \<Rightarrow>
                       (case finish N (ociLobLocator b1) st3 (\<lambda>st. (Returns (Some err), st)) of
                          (res, st4) \<Rightarrow> Some (res, r2, st4))
                   | (res, st3) \<Rightarrow> Some (res, r2, st3))))"

text \<open>What a native write was asked to transfer: its piece flag and the buffer's length.\<close>

fun piece_of :: "call \<Rightarrow> (piece \<times> nat) option" where
  "piece_of (OCILobWrite2 locp amt offset buf buflen p) = Some (p, length buf)"
| "piece_of c = None"

fun is_bind :: "call \<Rightarrow> bool" where
  "is_bind (OCIBINDBYPOS h p v t) = True"
| "is_bind (OCIBINDBYPOS_array h p nums inds alens rcodes maxlen curp) = True"
| "is_bind (OCIBindArrayOfStruct h) = True"
| "is_bind c = False"

section \<open>Theorems\<close>

lemma wrap64_id: "- (2 ^ 63) \<le> x \<Longrightarrow> x < 2 ^ 63 \<Longrightarrow> wrap64 x = x"
  by (simp add: wrap64_def)

lemma go_div_nonneg: "0 \<le> a \<Longrightarrow> 0 < b \<Longrightarrow> go_div a b = a div b"
  by (cases "a = 0") (simp_all add: go_div_def)

lemma sprintf_02d_two_digits:
  assumes "0 \<le> n" "n < 100"
  shows "sprintf_02d n = [digit_char (nat n div 10), digit_char (nat n mod 10)]"
proof (cases "n < 10")
  case True
  with assms have "decimal (nat n) = [digit_char (nat n)]"
    by (simp add: decimal.simps)
  with True assms show ?thesis
    by (simp add: sprintf_02d_def zero_pad_def digit_char_def)
next
  case False
  with assms have d: "nat n div 10 < 10" by simp
  from False assms have nn: "\<not> nat n < 10" by linarith
  then have "decimal (nat n) = decimal (nat n div 10) @ [digit_char (nat n mod 10)]"
    using decimal.simps [of "nat n"] by simp
  also from d have "decimal (nat n div 10) = [digit_char (nat n div 10)]"
    using decimal.simps [of "nat n div 10"] by simp
  finally show ?thesis using assms
    by (simp add: sprintf_02d_def zero_pad_def)
qed

lemma zoneOffset_nonneg:
  assumes "0 \<le> z" "z < 86400" "snd (time_Zone value) = z"
  shows "zoneOffset value buf =
    (let s = CHR ''+'' # sprintf_02d (z div 3600) @ CHR '':'' # sprintf_02d (z mod 3600 div 60)
     in (s, s))"
proof -
  have h: "go_div z 3600 = z div 3600"
    using assms by (simp add: go_div_nonneg)
  have "0 \<le> z div 3600" "z div 3600 \<le> 23" using assms by simp_all
  then have w1: "wrap64 (z div 3600 * 3600) = z div 3600 * 3600"
    by (intro wrap64_id) simp_all
  have r: "z - z div 3600 * 3600 = z mod 3600"
    by (simp add: minus_div_mult_eq_mod)
  have "0 \<le> z mod 3600" "z mod 3600 < 3600" by simp_all
  then have w2: "wrap64 (z mod 3600) = z mod 3600"
    by (intro wrap64_id) simp_all
  have m: "go_div (z mod 3600) 60 = z mod 3600 div 60"
    by (simp add: go_div_nonneg)
  show ?thesis
    using assms by (simp add: zoneOffset_def Let_def h w1 r w2 m)
qed

lemma zoneOffset_neg:
  assumes "- 86400 < z" "z < 0" "snd (time_Zone value) = z"
  shows "zoneOffset value buf =
    (let s = CHR ''-'' # sprintf_02d ((- z) div 3600) @ CHR '':'' # sprintf_02d ((- z) mod 3600 div 60)
     in (s, s))"
proof -
  have w0: "wrap64 (- z) = - z"
    using assms by (simp add: wrap64_id)
  have h: "go_div (- z) 3600 = (- z) div 3600"
    using assms by (simp add: go_div_nonneg)
  have "0 \<le> (- z) div 3600" "(- z) div 3600 \<le> 23" using assms by simp_all
  then have w1: "wrap64 ((- z) div 3600 * 3600) = (- z) div 3600 * 3600"
    by (intro wrap64_id) simp_all
  have r: "(- z) - (- z) div 3600 * 3600 = (- z) mod 3600"
    by (simp add: minus_div_mult_eq_mod)
  have "0 \<le> (- z) mod 3600" "(- z) mod 3600 < 3600" by simp_all
  then have w2: "wrap64 ((- z) mod 3600) = (- z) mod 3600"
    by (intro wrap64_id) simp_all
  have m: "go_div ((- z) mod 3600) 60 = (- z) mod 3600 div 60"
    by (simp add: go_div_nonneg)
  show ?thesis
    using assms by (simp add: zoneOffset_def Let_def w0 h w1 r w2 m)
qed

text \<open>
  Claim C5. For every valid time value the zone offset string is the six characters
  \<open>\<plusminus>HH:MM\<close>: the sign is \<open>-\<close> when the offset in seconds is negative and \<open>+\<close>
  when it is zero or positive, \<open>HH\<close> are the two decimal digits of the whole hours of
  the magnitude (at most 23) and \<open>MM\<close> those of the remaining whole minutes (at most 59).
\<close>

theorem zoneOffset_form:
  assumes "valid_time value"
  shows "(let z = snd (time_Zone value);
              h = nat (\<bar>z\<bar> div 3600);
              m = nat (\<bar>z\<bar> mod 3600 div 60)
          in fst (zoneOffset value buf) =
               [if z < 0 then CHR ''-'' else CHR ''+'',
                digit_char (h div 10), digit_char (h mod 10), CHR '':'',
                digit_char (m div 10), digit_char (m mod 10)]
             \<and> length (fst (zoneOffset value buf)) = 6
             \<and> h \<le> 23 \<and> m \<le> 59)"
proof -
  define z where "z = snd (time_Zone value)"
  define a where "a = \<bar>z\<bar>"
  have a: "0 \<le> a" "a < 86400"
    using assms by (auto simp add: valid_time_def z_def a_def)
  have hb: "0 \<le> a div 3600" "a div 3600 < 100" "a div 3600 \<le> 23"
    using a by simp_all
  have mb: "0 \<le> a mod 3600 div 60" "a mod 3600 div 60 < 100" "a mod 3600 div 60 \<le> 59"
    by simp_all
  have hs: "sprintf_02d (a div 3600) =
      [digit_char (nat (a div 3600) div 10), digit_char (nat (a div 3600) mod 10)]"
    using hb by (intro sprintf_02d_two_digits) simp_all
  have ms: "sprintf_02d (a mod 3600 div 60) =
      [digit_char (nat (a mod 3600 div 60) div 10), digit_char (nat (a mod 3600 div 60) mod 10)]"
    using mb by (intro sprintf_02d_two_digits) simp_all
  have str: "fst (zoneOffset value buf) =
      (if z < 0 then CHR ''-'' else CHR ''+'') #
      sprintf_02d (a div 3600) @ CHR '':'' # sprintf_02d (a mod 3600 div 60)"
  proof (cases "z < 0")
    case True
    then have az: "- z = a" by (simp add: a_def)
    have "- 86400 < z" using assms by (simp add: valid_time_def z_def)
    from zoneOffset_neg [OF this True z_def [symmetric], of buf]
    show ?thesis using True by (simp add: Let_def az)
  next
    case False
    then have az: "z = a" by (simp add: a_def)
    have "0 \<le> z" "z < 86400" using False assms by (simp_all add: valid_time_def z_def)
    from zoneOffset_nonneg [OF this z_def [symmetric], of buf]
    show ?thesis using False by (simp add: Let_def az [symmetric])
  qed
  have "fst (zoneOffset value buf) =
      [if z < 0 then CHR ''-'' else CHR ''+'',
       digit_char (nat (a div 3600) div 10), digit_char (nat (a div 3600) mod 10), CHR '':'',
       digit_char (nat (a mod 3600 div 60) div 10), digit_char (nat (a mod 3600 div 60) mod 10)]"
    by (simp only: str hs ms append.simps)
  moreover have "nat (a div 3600) \<le> 23" using hb by simp
  moreover have "nat (a mod 3600 div 60) \<le> 59" using mb by simp
  ultimately show ?thesis
    unfolding Let_def z_def [symmetric] a_def [symmetric] by simp
qed

theorem zoneOffset_form_witness:
  "valid_time \<lparr>time_Year = 2015, time_Month = 3, time_Day = 9, time_Hour = 12, time_Minute = 0,
      time_Second = 0, time_Nanosecond = 0, time_Zone = (''NST'', - 12600)\<rparr>
   \<and> fst (zoneOffset \<lparr>time_Year = 2015, time_Month = 3, time_Day = 9, time_Hour = 12,
      time_Minute = 0, time_Second = 0, time_Nanosecond = 0, time_Zone = (''NST'', - 12600)\<rparr> [])
     = ''-03:30''"
proof -
  let ?t = "\<lparr>time_Year = 2015, time_Month = 3, time_Day = 9, time_Hour = 12, time_Minute = 0,
      time_Second = 0, time_Nanosecond = 0, time_Zone = (''NST'', - 12600)\<rparr>"
  have v: "valid_time ?t" by (simp add: valid_time_def)
  show ?thesis
    using v zoneOffset_form [OF v, of "[]"] by (simp add: Let_def digit_char_def)
qed

subsection \<open>Descriptor allocation during bind\<close>

lemma native_call_Returns:
  "N (length (calls (snd st))) = Returns r \<Longrightarrow>
   native_call N c st k = k r (fst st, (snd st)\<lparr>calls := calls (snd st) @ [c]\<rparr>)"
  by (simp add: native_call_def)

lemma native_call_Panics:
  "N (length (calls (snd st))) = Panics v \<Longrightarrow>
   native_call N c st k = (Panics v, fst st, (snd st)\<lparr>calls := calls (snd st) @ [c]\<rparr>)"
  by (simp add: native_call_def)

lemma bndIntervalDS_bind_invalid_handle:
  assumes "N (length (calls w)) = Returns r" "r_status r = OCI_INVALID_HANDLE"
  shows "fst (bndIntervalDS_bind N v p s (b, w)) =
         Returns (Some (errNew ''unable to allocate oci interval handle during bind''))"
  using assms by (simp add: bndIntervalDS_bind_def native_call_Returns)

lemma bndIntervalDS_bind_oci_error:
  assumes "N (length (calls w)) = Returns r" "r_status r = OCI_ERROR"
    "N (Suc (length (calls w))) = Returns r'"
  shows "fst (bndIntervalDS_bind N v p s (b, w)) = Returns (Some (ociError (r_status r')))"
  using assms by (simp add: bndIntervalDS_bind_def env_ociError_def native_call_Returns)

lemma bndTime_bind_invalid_handle:
  assumes "N (length (calls w)) = Returns r0" "N (Suc (length (calls w))) = Returns r"
    "r_status r = OCI_INVALID_HANDLE"
  shows "fst (bndTime_bind N v p s (b, w)) =
         Returns (Some (errNew ''unable to allocate oci timestamp handle during bind''))"
  using assms
  by (simp add: bndTime_bind_def native_call_Returns Let_def split: prod.split)

lemma bndTime_bind_oci_error:
  assumes "N (length (calls w)) = Returns r0" "N (Suc (length (calls w))) = Returns r"
    "r_status r = OCI_ERROR" "N (Suc (Suc (length (calls w)))) = Returns r'"
  shows "fst (bndTime_bind N v p s (b, w)) = Returns (Some (ociError (r_status r')))"
  using assms
  by (simp add: bndTime_bind_def env_ociError_def native_call_Returns Let_def split: prod.split)

lemma allocTempLob_invalid_handle:
  assumes "N (length (calls (snd st))) = Returns r" "r_status r = OCI_INVALID_HANDLE"
  shows "fst (allocTempLob N s st) =
         Returns (None, Some (errNew ''unable to allocate oci lob handle during bind''))"
  using assms by (simp add: allocTempLob_def native_call_Returns)

lemma allocTempLob_oci_error:
  assumes "N (length (calls (snd st))) = Returns r" "r_status r = OCI_ERROR"
    "N (Suc (length (calls (snd st)))) = Returns r'"
  shows "fst (allocTempLob N s st) = Returns (None, Some (ociError (r_status r')))"
  using assms by (simp add: allocTempLob_def env_ociError_def native_call_Returns)

text \<open>
  Claim C7. In each of the three binds that allocate a descriptor (interval, timestamp,
  LOB locator), when the native allocation answers OCI_INVALID_HANDLE the bind returns
  the dedicated error "unable to allocate oci ... handle during bind", and when it
  answers OCI_ERROR the bind returns the environment's last native error; the two are
  different errors. The allocation is the first native call of the interval bind and of
  \<open>allocTempLob\<close>, and the second one of the timestamp bind (after the zone string is
  copied); \<open>r'\<close> is the answer to the fetch of the last native error that follows.
\<close>

theorem alloc_invalid_handle_is_dedicated_error:
  "(N (length (calls w)) = Returns r \<and> r_status r = OCI_INVALID_HANDLE \<longrightarrow>
      fst (bndIntervalDS_bind N iv p s (bi, w)) =
        Returns (Some (errNew ''unable to allocate oci interval handle during bind''))
    \<and> fst (allocTempLob N s (bl, w)) =
        Returns (None, Some (errNew ''unable to allocate oci lob handle during bind'')))
   \<and> (N (length (calls w)) = Returns r \<and> r_status r = OCI_ERROR
        \<and> N (Suc (length (calls w))) = Returns r' \<longrightarrow>
      fst (bndIntervalDS_bind N iv p s (bi, w)) = Returns (Some (ociError (r_status r')))
    \<and> fst (allocTempLob N s (bl, w)) = Returns (None, Some (ociError (r_status r'))))
   \<and> (N (length (calls w)) = Returns r0 \<and> N (Suc (length (calls w))) = Returns r
        \<and> r_status r = OCI_INVALID_HANDLE \<longrightarrow>
      fst (bndTime_bind N tv p s (bt, w)) =
        Returns (Some (errNew ''unable to allocate oci timestamp handle during bind'')))
   \<and> (N (length (calls w)) = Returns r0 \<and> N (Suc (length (calls w))) = Returns r
        \<and> r_status r = OCI_ERROR \<and> N (Suc (Suc (length (calls w)))) = Returns r' \<longrightarrow>
      fst (bndTime_bind N tv p s (bt, w)) = Returns (Some (ociError (r_status r'))))
   \<and> (\<forall>m c. errNew m \<noteq> ociError c)"
  using bndIntervalDS_bind_invalid_handle [of N w r iv p s bi]
    bndIntervalDS_bind_oci_error [of N w r r' iv p s bi]
    allocTempLob_invalid_handle [of N "(bl, w)" r s]
    allocTempLob_oci_error [of N "(bl, w)" r r' s]
    bndTime_bind_invalid_handle [of N w r0 r tv p s bt]
    bndTime_bind_oci_error [of N w r0 r r' tv p s bt]
  by simp

theorem alloc_invalid_handle_is_dedicated_error_witness:
  "fst (bndIntervalDS_bind (answers [OCI_INVALID_HANDLE]) one_day 1 live_stmt
          (idle_bndIntervalDS, no_calls)) =
     Returns (Some (errNew ''unable to allocate oci interval handle during bind''))
   \<and> fst (allocTempLob (answers [OCI_INVALID_HANDLE]) live_stmt (idle_bndLob, no_calls)) =
     Returns (None, Some (errNew ''unable to allocate oci lob handle during bind''))
   \<and> fst (bndIntervalDS_bind (answers [OCI_ERROR, 1043]) one_day 1 live_stmt
          (idle_bndIntervalDS, no_calls)) =
     Returns (Some (ociError 1043))
   \<and> fst (allocTempLob (answers [OCI_ERROR, 1043]) live_stmt (idle_bndLob, no_calls)) =
     Returns (None, Some (ociError 1043))
   \<and> fst (bndTime_bind (answers [0, OCI_INVALID_HANDLE]) noon 1 live_stmt (idle_bndTime, no_calls)) =
     Returns (Some (errNew ''unable to allocate oci timestamp handle during bind''))
   \<and> fst (bndTime_bind (answers [0, OCI_ERROR, 1043]) noon 1 live_stmt (idle_bndTime, no_calls)) =
     Returns (Some (ociError 1043))"
  using
    alloc_invalid_handle_is_dedicated_error
      [where N = "answers [OCI_INVALID_HANDLE]" and w = no_calls and s = live_stmt
         and iv = one_day and p = 1 and bi = idle_bndIntervalDS and bl = idle_bndLob
         and tv = noon and bt = idle_bndTime
         and r = "\<lparr>r_status = OCI_INVALID_HANDLE, r_handle = Some 100, r_amt = 0\<rparr>"
         and r' = "\<lparr>r_status = 0, r_handle = Some 101, r_amt = 0\<rparr>"
         and r0 = "\<lparr>r_status = OCI_INVALID_HANDLE, r_handle = Some 100, r_amt = 0\<rparr>"]
    alloc_invalid_handle_is_dedicated_error
      [where N = "answers [OCI_ERROR, 1043]" and w = no_calls and s = live_stmt
         and iv = one_day and p = 1 and bi = idle_bndIntervalDS and bl = idle_bndLob
         and tv = noon and bt = idle_bndTime
         and r = "\<lparr>r_status = OCI_ERROR, r_handle = Some 100, r_amt = 0\<rparr>"
         and r' = "\<lparr>r_status = 1043, r_handle = Some 101, r_amt = 0\<rparr>"
         and r0 = "\<lparr>r_status = OCI_ERROR, r_handle = Some 100, r_amt = 0\<rparr>"]
    alloc_invalid_handle_is_dedicated_error
      [where N = "answers [0, OCI_INVALID_HANDLE]" and w = no_calls and s = live_stmt
         and iv = one_day and p = 1 and bi = idle_bndIntervalDS and bl = idle_bndLob
         and tv = noon and bt = idle_bndTime
         and r = "\<lparr>r_status = OCI_INVALID_HANDLE, r_handle = Some 101, r_amt = 0\<rparr>"
         and r' = "\<lparr>r_status = 0, r_handle = Some 102, r_amt = 0\<rparr>"
         and r0 = "\<lparr>r_status = 0, r_handle = Some 100, r_amt = 0\<rparr>"]
    alloc_invalid_handle_is_dedicated_error
      [where N = "answers [0, OCI_ERROR, 1043]" and w = no_calls and s = live_stmt
         and iv = one_day and p = 1 and bi = idle_bndIntervalDS and bl = idle_bndLob
         and tv = noon and bt = idle_bndTime
         and r = "\<lparr>r_status = OCI_ERROR, r_handle = Some 101, r_amt = 0\<rparr>"
         and r' = "\<lparr>r_status = 1043, r_handle = Some 102, r_amt = 0\<rparr>"
         and r0 = "\<lparr>r_status = 0, r_handle = Some 100, r_amt = 0\<rparr>"]
  by (simp add: answers_def no_calls_def)

subsection \<open>Close\<close>

lemma bndIntervalDS_close_panic:
  assumes "N (length (calls w)) = Panics v"
  shows "bndIntervalDS_close N (b, w) =
    (Returns (Some (errR v)), b,
     w\<lparr>calls := calls w @ [OCIDescriptorFree (ociInterval b) OCI_DTYPE_INTERVAL_DS]\<rparr>)"
  using assms by (simp add: bndIntervalDS_close_def native_call_Panics recover_err_def)

lemma bndIntervalDS_close_ok:
  assumes "N (length (calls w)) = Returns r" "stmt b = Some s"
  shows "bndIntervalDS_close N (b, w) =
    (Returns None, b\<lparr>stmt := None, ocibnd := None, ociInterval := None\<rparr>,
     w\<lparr>calls := calls w @ [OCIDescriptorFree (ociInterval b) OCI_DTYPE_INTERVAL_DS],
       pools := (stmt_id s, bndIdxIntervalDS,
                 BndIntervalDS (b\<lparr>stmt := None, ocibnd := None, ociInterval := None\<rparr>)) # pools w\<rparr>)"
  using assms
  by (simp add: bndIntervalDS_close_def native_call_Returns recover_err_def put_and_return_def
      putBnd_def Let_def)

lemma bndIntervalDS_close_nil:
  assumes "N (length (calls w)) = Returns r" "stmt b = None"
  shows "bndIntervalDS_close N (b, w) =
    (Returns (Some (errR NilDereference)), b\<lparr>stmt := None, ocibnd := None, ociInterval := None\<rparr>,
     w\<lparr>calls := calls w @ [OCIDescriptorFree (ociInterval b) OCI_DTYPE_INTERVAL_DS]\<rparr>)"
  using assms
  by (simp add: bndIntervalDS_close_def native_call_Returns recover_err_def put_and_return_def
      putBnd_def Let_def)

lemma bndTime_release_ok:
  assumes "stmt b = Some s"
  shows "bndTime_release (b, w) =
    (Returns None, b\<lparr>stmt := None, ocibnd := None, ociDateTime := None, zoneBuf := []\<rparr>,
     w\<lparr>pools := (stmt_id s, bndIdxTime,
         BndTime (b\<lparr>stmt := None, ocibnd := None, ociDateTime := None, zoneBuf := []\<rparr>)) # pools w\<rparr>)"
  using assms by (simp add: bndTime_release_def put_and_return_def putBnd_def Let_def)

lemma bndTime_release_nil:
  assumes "stmt b = None"
  shows "bndTime_release (b, w) =
    (Panics NilDereference,
     b\<lparr>stmt := None, ocibnd := None, ociDateTime := None, zoneBuf := []\<rparr>, w)"
  using assms by (simp add: bndTime_release_def put_and_return_def putBnd_def Let_def)

lemma bndTime_close_panic_free:
  assumes "cZone b \<noteq> None" "N (length (calls w)) = Panics v"
  shows "bndTime_close N (b, w) =
    (Returns (Some (errR v)), b, w\<lparr>calls := calls w @ [C_free (cZone b)]\<rparr>)"
  using assms by (simp add: bndTime_close_def native_call_Panics recover_err_def)

lemma bndTime_close_panic_descriptor:
  assumes "cZone b \<noteq> None" "N (length (calls w)) = Returns r"
    "N (Suc (length (calls w))) = Panics v"
  shows "bndTime_close N (b, w) =
    (Returns (Some (errR v)), b\<lparr>cZone := None\<rparr>,
     w\<lparr>calls := calls w @
        [C_free (cZone b), OCIDescriptorFree (ociDateTime b) OCI_DTYPE_TIMESTAMP_TZ]\<rparr>)"
  using assms
  by (simp add: bndTime_close_def native_call_Returns native_call_Panics recover_err_def)

lemma bndLob_close_panic_temporary:
  assumes "stmt b \<noteq> None" "N (length (calls w)) = Panics v"
  shows "bndLob_close N (b, w) =
    (Returns (Some (errR v)), b, w\<lparr>calls := calls w @ [OCILobFreeTemporary (ociLobLocator b)]\<rparr>)"
  using assms by (auto simp add: bndLob_close_def native_call_Panics recover_err_def)

lemma bndLob_close_panic_descriptor:
  assumes "stmt b \<noteq> None" "N (length (calls w)) = Returns r"
    "N (Suc (length (calls w))) = Panics v"
  shows "bndLob_close N (b, w) =
    (Returns (Some (errR v)), b,
     w\<lparr>calls := calls w @
        [OCILobFreeTemporary (ociLobLocator b), OCIDescriptorFree (ociLobLocator b) OCI_DTYPE_LOB]\<rparr>)"
  using assms
  by (auto simp add: bndLob_close_def native_call_Returns native_call_Panics recover_err_def)

lemma bndLob_close_nil:
  assumes "stmt b = None"
  shows "bndLob_close N (b, w) = (Returns (Some (errR NilDereference)), b, w)"
  using assms by (simp add: bndLob_close_def recover_err_def)

text \<open>
  Claim C2, as the code has it. When a native deallocation inside \<open>close\<close> panics, the
  deferred function recovers the panic and \<open>close\<close> returns it as the error
  \<open>errR v\<close>; the statements after the panicking call do not run, so the binder keeps
  the fields it had at the panic and the statement's pools are left as they were (the
  binder is not returned to the pool on that path). This holds for each binder that
  deallocates natively: the interval binder (its descriptor), the time binder (the zone
  string, then the descriptor) and the LOB binder (the temporary LOB, then the
  locator).
\<close>

theorem close_native_panic_recovered_not_pooled:
  "(N (length (calls w)) = Panics v \<longrightarrow>
      bndIntervalDS_close N (bi, w) =
        (Returns (Some (errR v)), bi,
         w\<lparr>calls := calls w @ [OCIDescriptorFree (ociInterval bi) OCI_DTYPE_INTERVAL_DS]\<rparr>))
   \<and> (cZone bt \<noteq> None \<and> N (length (calls w)) = Panics v \<longrightarrow>
      bndTime_close N (bt, w) =
        (Returns (Some (errR v)), bt, w\<lparr>calls := calls w @ [C_free (cZone bt)]\<rparr>))
   \<and> (cZone bt \<noteq> None \<and> N (length (calls w)) = Returns r
        \<and> N (Suc (length (calls w))) = Panics v \<longrightarrow>
      bndTime_close N (bt, w) =
        (Returns (Some (errR v)), bt\<lparr>cZone := None\<rparr>,
         w\<lparr>calls := calls w @
            [C_free (cZone bt), OCIDescriptorFree (ociDateTime bt) OCI_DTYPE_TIMESTAMP_TZ]\<rparr>))
   \<and> (stmt bl \<noteq> None \<and> N (length (calls w)) = Panics v \<longrightarrow>
      bndLob_close N (bl, w) =
        (Returns (Some (errR v)), bl,
         w\<lparr>calls := calls w @ [OCILobFreeTemporary (ociLobLocator bl)]\<rparr>))
   \<and> (stmt bl \<noteq> None \<and> N (length (calls w)) = Returns r
        \<and> N (Suc (length (calls w))) = Panics v \<longrightarrow>
      bndLob_close N (bl, w) =
        (Returns (Some (errR v)), bl,
         w\<lparr>calls := calls w @
            [OCILobFreeTemporary (ociLobLocator bl),
             OCIDescriptorFree (ociLobLocator bl) OCI_DTYPE_LOB]\<rparr>))"
  using bndIntervalDS_close_panic [of N w v bi]
    bndTime_close_panic_free [of bt N w v]
    bndTime_close_panic_descriptor [of bt N w r v]
    bndLob_close_panic_temporary [of bl N w v]
    bndLob_close_panic_descriptor [of bl N w r v]
  by blast

theorem close_native_panic_recovered_not_pooled_witness:
  "bndIntervalDS_close (panics_at 0) (bound_bndIntervalDS, no_calls) =
     (Returns (Some (errR (NativePanic ''free''))), bound_bndIntervalDS,
      no_calls\<lparr>calls := [OCIDescriptorFree (Some 7) OCI_DTYPE_INTERVAL_DS]\<rparr>)
   \<and> bndTime_close (panics_at 0) (bound_bndTime, no_calls) =
     (Returns (Some (errR (NativePanic ''free''))), bound_bndTime,
      no_calls\<lparr>calls := [C_free (Some 8)]\<rparr>)
   \<and> bndTime_close (panics_at 1) (bound_bndTime, no_calls) =
     (Returns (Some (errR (NativePanic ''free''))), bound_bndTime\<lparr>cZone := None\<rparr>,
      no_calls\<lparr>calls := [C_free (Some 8), OCIDescriptorFree (Some 7) OCI_DTYPE_TIMESTAMP_TZ]\<rparr>)
   \<and> bndLob_close (panics_at 0) (bound_bndLob, no_calls) =
     (Returns (Some (errR (NativePanic ''free''))), bound_bndLob,
      no_calls\<lparr>calls := [OCILobFreeTemporary (Some 7)]\<rparr>)
   \<and> bndLob_close (panics_at 1) (bound_bndLob, no_calls) =
     (Returns (Some (errR (NativePanic ''free''))), bound_bndLob,
      no_calls\<lparr>calls := [OCILobFreeTemporary (Some 7), OCIDescriptorFree (Some 7) OCI_DTYPE_LOB]\<rparr>)"
  using
    close_native_panic_recovered_not_pooled
      [where N = "panics_at 0" and w = no_calls and v = "NativePanic ''free''"
         and bi = bound_bndIntervalDS and bt = bound_bndTime and bl = bound_bndLob
         and r = "\<lparr>r_status = 0, r_handle = Some 100, r_amt = 0\<rparr>"]
    close_native_panic_recovered_not_pooled
      [where N = "panics_at 1" and w = no_calls and v = "NativePanic ''free''"
         and bi = bound_bndIntervalDS and bt = bound_bndTime and bl = bound_bndLob
         and r = "\<lparr>r_status = 0, r_handle = Some 100, r_amt = 0\<rparr>"]
  by (simp add: panics_at_def no_calls_def bound_bndIntervalDS_def bound_bndTime_def
      bound_bndLob_def)

text \<open>
  Claim C2 as stated fails: when the descriptor deallocation of the interval binder
  panics, \<open>close\<close> returns the recovered error, but the binder still holds its
  statement and the statement's pool is still empty.
\<close>

theorem close_panic_skips_putBnd_counterexample:
  "fst (bndIntervalDS_close (panics_at 0) (bound_bndIntervalDS, no_calls)) =
     Returns (Some (errR (NativePanic ''free'')))
   \<and> pools (snd (snd (bndIntervalDS_close (panics_at 0) (bound_bndIntervalDS, no_calls)))) = []
   \<and> stmt (fst (snd (bndIntervalDS_close (panics_at 0) (bound_bndIntervalDS, no_calls)))) =
     Some live_stmt"
  by (simp add: bndIntervalDS_close_def native_call_def recover_err_def panics_at_def
      no_calls_def bound_bndIntervalDS_def)

lemma bndIntervalDS_close_success:
  assumes "bndIntervalDS_close N (b, w) = (Returns None, b1, w1)"
  shows "b1 = b\<lparr>stmt := None, ocibnd := None, ociInterval := None\<rparr>
     \<and> (\<exists>s. stmt b = Some s \<and> pools w1 = (stmt_id s, bndIdxIntervalDS, BndIntervalDS b1) # pools w)"
proof (cases "N (length (calls w))")
  case (Panics v)
  with bndIntervalDS_close_panic [of N w v b] assms show ?thesis by simp
next
  case (Returns r)
  show ?thesis
  proof (cases "stmt b")
    case None
    with Returns bndIntervalDS_close_nil [of N w r b] assms show ?thesis by simp
  next
    case (Some s)
    with Returns bndIntervalDS_close_ok [of N w r b s] assms show ?thesis by auto
  qed
qed

lemma bndTime_close_success:
  assumes "bndTime_close N (b, w) = (Returns None, b1, w1)"
  shows "b1 = b\<lparr>stmt := None, ocibnd := None, ociDateTime := None, cZone := None, zoneBuf := []\<rparr>
     \<and> (\<exists>s. stmt b = Some s \<and> pools w1 = (stmt_id s, bndIdxTime, BndTime b1) # pools w)"
  using assms
  by (auto simp add: bndTime_close_def bndTime_release_def put_and_return_def putBnd_def
      native_call_def recover_err_def Let_def
      split: if_splits outcome.splits option.splits prod.splits)

lemma bndLob_close_success:
  assumes "bndLob_close N (b, w) = (Returns None, b1, w1)"
  shows "b1 = b\<lparr>stmt := None, ocibnd := None, ociLobLocator := None\<rparr>
     \<and> (\<exists>s. stmt b = Some s \<and> pools w1 = (stmt_id s, bndIdxLob, BndLob b1) # pools w)"
  using assms
  by (auto simp add: bndLob_close_def put_and_return_def putBnd_def
      native_call_def recover_err_def Let_def
      split: if_splits outcome.splits option.splits prod.splits)

lemma bndInt64Slice_close_success:
  assumes "bndInt64Slice_close ac (b, w) = (Returns None, b1, w1)"
  shows "b1 = b\<lparr>stmt := None, ocibnd := None, valuesp := None, hlp := ac (hlp b)\<rparr>
     \<and> (\<exists>s. stmt b = Some s \<and> pools w1 = (stmt_id s, bndIdxInt64Slice, BndInt64Slice b1) # pools w)"
  using assms
  by (auto simp add: bndInt64Slice_close_def put_and_return_def putBnd_def recover_err_def Let_def
      split: if_splits outcome.splits option.splits prod.splits)

text \<open>
  Claim C6. Closing a binder again after a close that returned no error does not
  propagate a panic and frees no native descriptor a second time, for every binder kind:
  the second call returns an error, leaves the statement's pools as they are, and
  \<^item> for the interval binder, its only native call is a deallocation of the nil pointer;
  \<^item> for the time binder and the LOB binder, it issues no native call at all and leaves
    the binder as it is;
  \<^item> for the integer-slice binder, which owns no native descriptor, it issues no native
    call.
\<close>

theorem second_close_is_safe:
  "(bndIntervalDS_close N (bi, w) = (Returns None, bi', w') \<longrightarrow>
      (\<exists>e. bndIntervalDS_close N' (bi', w') =
         (Returns (Some e), bi',
          w'\<lparr>calls := calls w' @ [OCIDescriptorFree None OCI_DTYPE_INTERVAL_DS]\<rparr>)))
   \<and> (bndTime_close N (bt, w) = (Returns None, bt', w') \<longrightarrow>
      bndTime_close N' (bt', w') = (Returns (Some (errR NilDereference)), bt', w'))
   \<and> (bndLob_close N (bl, w) = (Returns None, bl', w') \<longrightarrow>
      bndLob_close N' (bl', w') = (Returns (Some (errR NilDereference)), bl', w'))
   \<and> (bndInt64Slice_close ac (bs, w) = (Returns None, bs', w') \<longrightarrow>
      bndInt64Slice_close ac (bs', w') =
        (Returns (Some (errR NilDereference)), bs'\<lparr>hlp := ac (hlp bs')\<rparr>, w'))"
proof (intro conjI impI)
  assume "bndIntervalDS_close N (bi, w) = (Returns None, bi', w')"
  then have b1: "bi' = bi\<lparr>stmt := None, ocibnd := None, ociInterval := None\<rparr>"
    using bndIntervalDS_close_success by blast
  then have n: "stmt bi' = None" "ociInterval bi' = None"
    and same: "bi'\<lparr>stmt := None, ocibnd := None, ociInterval := None\<rparr> = bi'"
    by simp_all
  show "\<exists>e. bndIntervalDS_close N' (bi', w') =
         (Returns (Some e), bi',
          w'\<lparr>calls := calls w' @ [OCIDescriptorFree None OCI_DTYPE_INTERVAL_DS]\<rparr>)"
  proof (cases "N' (length (calls w'))")
    case (Panics v)
    with bndIntervalDS_close_panic [of N' w' v bi'] n show ?thesis by simp
  next
    case (Returns r)
    with bndIntervalDS_close_nil [of N' w' r bi'] n same show ?thesis by simp
  qed
next
  assume "bndTime_close N (bt, w) = (Returns None, bt', w')"
  then have "bt' = bt\<lparr>stmt := None, ocibnd := None, ociDateTime := None, cZone := None, zoneBuf := []\<rparr>"
    using bndTime_close_success by blast
  then have "stmt bt' = None" "cZone bt' = None"
    "bt'\<lparr>stmt := None, ocibnd := None, ociDateTime := None, zoneBuf := []\<rparr> = bt'"
    by simp_all
  then show "bndTime_close N' (bt', w') = (Returns (Some (errR NilDereference)), bt', w')"
    by (simp add: bndTime_close_def bndTime_release_nil recover_err_def)
next
  assume "bndLob_close N (bl, w) = (Returns None, bl', w')"
  then have "bl' = bl\<lparr>stmt := None, ocibnd := None, ociLobLocator := None\<rparr>"
    using bndLob_close_success by blast
  then have "stmt bl' = None" by simp
  then show "bndLob_close N' (bl', w') = (Returns (Some (errR NilDereference)), bl', w')"
    by (rule bndLob_close_nil)
next
  assume "bndInt64Slice_close ac (bs, w) = (Returns None, bs', w')"
  then have "bs' = bs\<lparr>stmt := None, ocibnd := None, valuesp := None, hlp := ac (hlp bs)\<rparr>"
    using bndInt64Slice_close_success by blast
  then have "stmt bs' = None"
    "bs'\<lparr>stmt := None, ocibnd := None, valuesp := None\<rparr> = bs'"
    by simp_all
  then show "bndInt64Slice_close ac (bs', w') =
        (Returns (Some (errR NilDereference)), bs'\<lparr>hlp := ac (hlp bs')\<rparr>, w')"
    by (simp add: bndInt64Slice_close_def put_and_return_def putBnd_def recover_err_def Let_def)
qed

lemma bound_bndIntervalDS_close:
  "bndIntervalDS_close (answers []) (bound_bndIntervalDS, no_calls) =
     (Returns None, idle_bndIntervalDS,
      \<lparr>calls = [OCIDescriptorFree (Some 7) OCI_DTYPE_INTERVAL_DS],
       pools = [(1, bndIdxIntervalDS, BndIntervalDS idle_bndIntervalDS)]\<rparr>)"
  by (simp add: bndIntervalDS_close_def native_call_def recover_err_def put_and_return_def
      putBnd_def Let_def answers_def no_calls_def bound_bndIntervalDS_def idle_bndIntervalDS_def
      live_stmt_def)

lemma bound_bndTime_close:
  "bndTime_close (answers []) (bound_bndTime, no_calls) =
     (Returns None, idle_bndTime,
      \<lparr>calls = [C_free (Some 8), OCIDescriptorFree (Some 7) OCI_DTYPE_TIMESTAMP_TZ],
       pools = [(1, bndIdxTime, BndTime idle_bndTime)]\<rparr>)"
  by (simp add: bndTime_close_def bndTime_release_def native_call_def recover_err_def
      put_and_return_def putBnd_def Let_def answers_def no_calls_def bound_bndTime_def
      idle_bndTime_def live_stmt_def)

lemma bound_bndLob_close:
  "bndLob_close (answers []) (bound_bndLob, no_calls) =
     (Returns None, idle_bndLob,
      \<lparr>calls = [OCILobFreeTemporary (Some 7), OCIDescriptorFree (Some 7) OCI_DTYPE_LOB],
       pools = [(1, bndIdxLob, BndLob idle_bndLob)]\<rparr>)"
  by (simp add: bndLob_close_def native_call_def recover_err_def put_and_return_def
      putBnd_def Let_def answers_def no_calls_def bound_bndLob_def idle_bndLob_def live_stmt_def)

lemma bound_bndInt64Slice_close:
  "bndInt64Slice_close id (bound_bndInt64Slice, no_calls) =
     (Returns None, bound_bndInt64Slice\<lparr>stmt := None, ocibnd := None, valuesp := None\<rparr>,
      \<lparr>calls = [],
       pools = [(1, bndIdxInt64Slice,
          BndInt64Slice (bound_bndInt64Slice\<lparr>stmt := None, ocibnd := None, valuesp := None\<rparr>))]\<rparr>)"
  by (simp add: bndInt64Slice_close_def recover_err_def put_and_return_def putBnd_def Let_def
      no_calls_def bound_bndInt64Slice_def live_stmt_def)

theorem second_close_is_safe_witness:
  "bndIntervalDS_close (answers []) (bound_bndIntervalDS, no_calls) =
     (Returns None, idle_bndIntervalDS,
      \<lparr>calls = [OCIDescriptorFree (Some 7) OCI_DTYPE_INTERVAL_DS],
       pools = [(1, bndIdxIntervalDS, BndIntervalDS idle_bndIntervalDS)]\<rparr>)
   \<and> (\<exists>e. bndIntervalDS_close (answers [])
         (idle_bndIntervalDS,
          \<lparr>calls = [OCIDescriptorFree (Some 7) OCI_DTYPE_INTERVAL_DS],
           pools = [(1, bndIdxIntervalDS, BndIntervalDS idle_bndIntervalDS)]\<rparr>) =
       (Returns (Some e), idle_bndIntervalDS,
        \<lparr>calls = [OCIDescriptorFree (Some 7) OCI_DTYPE_INTERVAL_DS,
                  OCIDescriptorFree None OCI_DTYPE_INTERVAL_DS],
         pools = [(1, bndIdxIntervalDS, BndIntervalDS idle_bndIntervalDS)]\<rparr>))
   \<and> bndTime_close (answers [])
         (idle_bndTime,
          \<lparr>calls = [C_free (Some 8), OCIDescriptorFree (Some 7) OCI_DTYPE_TIMESTAMP_TZ],
           pools = [(1, bndIdxTime, BndTime idle_bndTime)]\<rparr>) =
       (Returns (Some (errR NilDereference)), idle_bndTime,
        \<lparr>calls = [C_free (Some 8), OCIDescriptorFree (Some 7) OCI_DTYPE_TIMESTAMP_TZ],
         pools = [(1, bndIdxTime, BndTime idle_bndTime)]\<rparr>)
   \<and> bndLob_close (answers [])
         (idle_bndLob,
          \<lparr>calls = [OCILobFreeTemporary (Some 7), OCIDescriptorFree (Some 7) OCI_DTYPE_LOB],
           pools = [(1, bndIdxLob, BndLob idle_bndLob)]\<rparr>) =
       (Returns (Some (errR NilDereference)), idle_bndLob,
        \<lparr>calls = [OCILobFreeTemporary (Some 7), OCIDescriptorFree (Some 7) OCI_DTYPE_LOB],
         pools = [(1, bndIdxLob, BndLob idle_bndLob)]\<rparr>)
   \<and> fst (bndInt64Slice_close id
         (bound_bndInt64Slice\<lparr>stmt := None, ocibnd := None, valuesp := None\<rparr>,
          \<lparr>calls = [],
           pools = [(1, bndIdxInt64Slice,
             BndInt64Slice (bound_bndInt64Slice\<lparr>stmt := None, ocibnd := None, valuesp := None\<rparr>))]\<rparr>)) =
       Returns (Some (errR NilDereference))"
  using
    second_close_is_safe
      [where N = "answers []" and N' = "answers []" and w = no_calls and ac = id
         and bi = bound_bndIntervalDS and bt = bound_bndTime and bl = bound_bndLob
         and bs = bound_bndInt64Slice
         and bi' = idle_bndIntervalDS and bt' = idle_bndTime and bl' = idle_bndLob
         and bs' = "bound_bndInt64Slice\<lparr>stmt := None, ocibnd := None, valuesp := None\<rparr>"
         and w' = "\<lparr>calls = [OCIDescriptorFree (Some 7) OCI_DTYPE_INTERVAL_DS],
                    pools = [(1, bndIdxIntervalDS, BndIntervalDS idle_bndIntervalDS)]\<rparr>"]
    second_close_is_safe
      [where N = "answers []" and N' = "answers []" and w = no_calls and ac = id
         and bi = bound_bndIntervalDS and bt = bound_bndTime and bl = bound_bndLob
         and bs = bound_bndInt64Slice
         and bi' = idle_bndIntervalDS and bt' = idle_bndTime and bl' = idle_bndLob
         and bs' = "bound_bndInt64Slice\<lparr>stmt := None, ocibnd := None, valuesp := None\<rparr>"
         and w' = "\<lparr>calls = [C_free (Some 8), OCIDescriptorFree (Some 7) OCI_DTYPE_TIMESTAMP_TZ],
                    pools = [(1, bndIdxTime, BndTime idle_bndTime)]\<rparr>"]
    second_close_is_safe
      [where N = "answers []" and N' = "answers []" and w = no_calls and ac = id
         and bi = bound_bndIntervalDS and bt = bound_bndTime and bl = bound_bndLob
         and bs = bound_bndInt64Slice
         and bi' = idle_bndIntervalDS and bt' = idle_bndTime and bl' = idle_bndLob
         and bs' = "bound_bndInt64Slice\<lparr>stmt := None, ocibnd := None, valuesp := None\<rparr>"
         and w' = "\<lparr>calls = [OCILobFreeTemporary (Some 7), OCIDescriptorFree (Some 7) OCI_DTYPE_LOB],
                    pools = [(1, bndIdxLob, BndLob idle_bndLob)]\<rparr>"]
    second_close_is_safe
      [where N = "answers []" and N' = "answers []" and w = no_calls and ac = id
         and bi = bound_bndIntervalDS and bt = bound_bndTime and bl = bound_bndLob
         and bs = bound_bndInt64Slice
         and bi' = idle_bndIntervalDS and bt' = idle_bndTime and bl' = idle_bndLob
         and bs' = "bound_bndInt64Slice\<lparr>stmt := None, ocibnd := None, valuesp := None\<rparr>"
         and w' = "\<lparr>calls = [],
           pools = [(1, bndIdxInt64Slice,
             BndInt64Slice (bound_bndInt64Slice\<lparr>stmt := None, ocibnd := None, valuesp := None\<rparr>))]\<rparr>"]
    bound_bndIntervalDS_close bound_bndTime_close bound_bndLob_close bound_bndInt64Slice_close
  by simp

text \<open>
  Claim C9, as the code has it. A close that returns no error has reset the binder's
  statement reference, its bind handle and its native descriptor references to nil (for
  the time binder also the zone string pointer and the zone buffer, for the
  integer-slice binder also the pointer to the caller's values), and the binder in this
  state is the newest entry of its statement's pool for its kind. The integer-slice
  binder keeps its integer buffer and its native number buffer as they were: they are
  reused by the next bind.
\<close>

theorem close_resets_references:
  "(bndIntervalDS_close N (bi, w) = (Returns None, bi', w') \<longrightarrow>
      stmt bi' = None \<and> ocibnd bi' = None \<and> ociInterval bi' = None
      \<and> (\<exists>s. stmt bi = Some s
            \<and> pools w' = (stmt_id s, bndIdxIntervalDS, BndIntervalDS bi') # pools w))
   \<and> (bndTime_close N (bt, w) = (Returns None, bt', w') \<longrightarrow>
      stmt bt' = None \<and> ocibnd bt' = None \<and> ociDateTime bt' = None \<and> cZone bt' = None
      \<and> zoneBuf bt' = []
      \<and> (\<exists>s. stmt bt = Some s \<and> pools w' = (stmt_id s, bndIdxTime, BndTime bt') # pools w))
   \<and> (bndLob_close N (bl, w) = (Returns None, bl', w') \<longrightarrow>
      stmt bl' = None \<and> ocibnd bl' = None \<and> ociLobLocator bl' = None
      \<and> (\<exists>s. stmt bl = Some s \<and> pools w' = (stmt_id s, bndIdxLob, BndLob bl') # pools w))
   \<and> (bndInt64Slice_close ac (bs, w) = (Returns None, bs', w') \<longrightarrow>
      stmt bs' = None \<and> ocibnd bs' = None \<and> valuesp bs' = None
      \<and> ints bs' = ints bs \<and> ociNumbers bs' = ociNumbers bs
      \<and> (\<exists>s. stmt bs = Some s
            \<and> pools w' = (stmt_id s, bndIdxInt64Slice, BndInt64Slice bs') # pools w))"
  using bndIntervalDS_close_success [of N bi w bi' w']
    bndTime_close_success [of N bt w bt' w']
    bndLob_close_success [of N bl w bl' w']
    bndInt64Slice_close_success [of ac bs w bs' w']
  by auto

theorem close_resets_references_witness:
  "bndIntervalDS_close (answers []) (bound_bndIntervalDS, no_calls) =
     (Returns None, idle_bndIntervalDS,
      \<lparr>calls = [OCIDescriptorFree (Some 7) OCI_DTYPE_INTERVAL_DS],
       pools = [(1, bndIdxIntervalDS, BndIntervalDS idle_bndIntervalDS)]\<rparr>)
   \<and> stmt idle_bndIntervalDS = None \<and> ociInterval idle_bndIntervalDS = None
   \<and> bndTime_close (answers []) (bound_bndTime, no_calls) =
     (Returns None, idle_bndTime,
      \<lparr>calls = [C_free (Some 8), OCIDescriptorFree (Some 7) OCI_DTYPE_TIMESTAMP_TZ],
       pools = [(1, bndIdxTime, BndTime idle_bndTime)]\<rparr>)
   \<and> ociDateTime idle_bndTime = None \<and> cZone idle_bndTime = None
   \<and> bndLob_close (answers []) (bound_bndLob, no_calls) =
     (Returns None, idle_bndLob,
      \<lparr>calls = [OCILobFreeTemporary (Some 7), OCIDescriptorFree (Some 7) OCI_DTYPE_LOB],
       pools = [(1, bndIdxLob, BndLob idle_bndLob)]\<rparr>)
   \<and> ociLobLocator idle_bndLob = None
   \<and> fst (bndInt64Slice_close id (bound_bndInt64Slice, no_calls)) = Returns None
   \<and> valuesp (bound_bndInt64Slice\<lparr>stmt := None, ocibnd := None, valuesp := None\<rparr>) = None
   \<and> ints (bound_bndInt64Slice\<lparr>stmt := None, ocibnd := None, valuesp := None\<rparr>) =
       ints bound_bndInt64Slice"
  using
    close_resets_references
      [where N = "answers []" and w = no_calls and bi = bound_bndIntervalDS
         and bi' = idle_bndIntervalDS
         and w' = "\<lparr>calls = [OCIDescriptorFree (Some 7) OCI_DTYPE_INTERVAL_DS],
                    pools = [(1, bndIdxIntervalDS, BndIntervalDS idle_bndIntervalDS)]\<rparr>"
         and bt = bound_bndTime and bt' = idle_bndTime
         and bl = bound_bndLob and bl' = idle_bndLob and ac = id
         and bs = bound_bndInt64Slice
         and bs' = "bound_bndInt64Slice\<lparr>stmt := None, ocibnd := None, valuesp := None\<rparr>"]
    close_resets_references
      [where N = "answers []" and w = no_calls and bi = bound_bndIntervalDS
         and bi' = idle_bndIntervalDS
         and w' = "\<lparr>calls = [C_free (Some 8), OCIDescriptorFree (Some 7) OCI_DTYPE_TIMESTAMP_TZ],
                    pools = [(1, bndIdxTime, BndTime idle_bndTime)]\<rparr>"
         and bt = bound_bndTime and bt' = idle_bndTime
         and bl = bound_bndLob and bl' = idle_bndLob and ac = id
         and bs = bound_bndInt64Slice
         and bs' = "bound_bndInt64Slice\<lparr>stmt := None, ocibnd := None, valuesp := None\<rparr>"]
    close_resets_references
      [where N = "answers []" and w = no_calls and bi = bound_bndIntervalDS
         and bi' = idle_bndIntervalDS
         and w' = "\<lparr>calls = [OCILobFreeTemporary (Some 7), OCIDescriptorFree (Some 7) OCI_DTYPE_LOB],
                    pools = [(1, bndIdxLob, BndLob idle_bndLob)]\<rparr>"
         and bt = bound_bndTime and bt' = idle_bndTime
         and bl = bound_bndLob and bl' = idle_bndLob and ac = id
         and bs = bound_bndInt64Slice
         and bs' = "bound_bndInt64Slice\<lparr>stmt := None, ocibnd := None, valuesp := None\<rparr>"]
    close_resets_references
      [where N = "answers []" and w = no_calls and bi = bound_bndIntervalDS
         and bi' = idle_bndIntervalDS
         and w' = "\<lparr>calls = [],
           pools = [(1, bndIdxInt64Slice,
             BndInt64Slice (bound_bndInt64Slice\<lparr>stmt := None, ocibnd := None, valuesp := None\<rparr>))]\<rparr>"
         and bt = bound_bndTime and bt' = idle_bndTime
         and bl = bound_bndLob and bl' = idle_bndLob and ac = id
         and bs = bound_bndInt64Slice
         and bs' = "bound_bndInt64Slice\<lparr>stmt := None, ocibnd := None, valuesp := None\<rparr>"]
    bound_bndIntervalDS_close bound_bndTime_close bound_bndLob_close bound_bndInt64Slice_close
  by simp

text \<open>
  Claim C9 as stated fails for the integer-slice binder: after a close that returned it
  to the pool, the binder still holds the integer 7 it was bound with and its native
  number, so not all of its fields are in their zero state.
\<close>

theorem close_keeps_value_buffers_counterexample:
  "fst (bndInt64Slice_close id (bound_bndInt64Slice, no_calls)) = Returns None
   \<and> ints (fst (snd (bndInt64Slice_close id (bound_bndInt64Slice, no_calls)))) =
       \<lparr>arr = [7], len = 1\<rparr>
   \<and> ociNumbers (fst (snd (bndInt64Slice_close id (bound_bndInt64Slice, no_calls)))) =
       \<lparr>arr = [[2, 193, 8]], len = 1\<rparr>
   \<and> pools (snd (snd (bndInt64Slice_close id (bound_bndInt64Slice, no_calls)))) =
       [(1, bndIdxInt64Slice,
         BndInt64Slice (fst (snd (bndInt64Slice_close id (bound_bndInt64Slice, no_calls)))))]"
  by (simp add: bndInt64Slice_close_def recover_err_def put_and_return_def putBnd_def Let_def
      no_calls_def bound_bndInt64Slice_def live_stmt_def)

subsection \<open>The closed driver statement\<close>

text \<open>
  Claim C10, evaluated on the code. On a \<open>DrvStmt\<close> whose statement is nil, \<open>NumInput\<close>
  returns 0, but \<open>Close\<close>, \<open>Exec\<close> and \<open>Query\<close> do not reach their \<open>checkIsOpen\<close>
  guard: each starts with \<^verbatim>\<open>ds.log(true)\<close>, whose argument \<^verbatim>\<open>ds.sysName()\<close>
  dereferences the nil statement, so each panics instead of returning the error
  "DrvStmt is closed." that the guard would have produced.
\<close>

theorem closed_DrvStmt_panics_before_guard:
  "drv_Close stmt_Close \<lparr>drv_stmt = None\<rparr> = Panics NilDereference
   \<and> drv_Exec stmt_exe \<lparr>drv_stmt = None\<rparr> vals = Panics NilDereference
   \<and> drv_Query stmt_qry \<lparr>drv_stmt = None\<rparr> vals = Panics NilDereference
   \<and> drv_NumInput stmt_NumInput \<lparr>drv_stmt = None\<rparr> = 0
   \<and> checkIsOpen \<lparr>drv_stmt = None\<rparr> = Some (er ''DrvStmt is closed.'')"
  by (simp add: drv_Close_def drv_Exec_def drv_Query_def drv_NumInput_def drv_log_def
      sysName_def checkIsOpen_def)

subsection \<open>LOB streaming\<close>

lemma lobBuffers_pos:
  "0 < B \<Longrightarrow> \<exists>k. lobBuffers C (int B) = Returns ((0, B), (k, B))"
  by (simp add: lobBuffers_def)

lemma length_contents [simp]: "length (contents s buf) = snd buf"
  by (simp add: contents_def)

lemma ReadFull_enough:
  "m \<le> length (data r) \<Longrightarrow>
   ReadFull r m = (m, None, take m (data r), r\<lparr>data := drop m (data r)\<rparr>)"
  by (simp add: ReadFull_def)

lemma ReadFull_short:
  "length (data r) < m \<Longrightarrow>
   ReadFull r m = (length (data r),
      Some (if 0 < length (data r) \<and> fin r = io_EOF then io_ErrUnexpectedEOF else fin r),
      data r, r\<lparr>data := []\<rparr>)"
  by (simp add: ReadFull_def)

lemma writeLob_one_piece:
  assumes B: "0 < B" and eof: "fin r = io_EOF" and len: "length (data r) = B"
    and N: "N (length (calls w)) = Returns a" "r_status a \<noteq> OCI_ERROR"
  shows "\<exists>r' w'. writeLob N C locp s r (int B) w = Some (Returns None, r', w')
     \<and> map piece_of (drop (length (calls w)) (calls w')) = [Some (OCI_ONE_PIECE, B)]"
proof -
  from lobBuffers_pos [OF B] obtain k where k: "lobBuffers C (int B) = Returns ((0, B), (k, B))" ..
  show ?thesis
    using B eof len N
    apply (simp add: writeLob_def k ReadFull_enough Let_def)
    apply (subst writeLob_loop.simps)
    apply (simp add: writeLob_iter_def read_next_def ReadFull_short Let_def native_call_Returns)
    done
qed


lemma writeLob_first_last:
  assumes B: "0 < B" and eof: "fin r = io_EOF"
    and len: "B < length (data r)" "length (data r) < 2 * B"
    and N: "N (length (calls w)) = Returns a" "r_status a \<noteq> OCI_ERROR"
      "N (Suc (length (calls w))) = Returns a'" "r_status a' \<noteq> OCI_ERROR"
  shows "\<exists>r' w'. writeLob N C locp s r (int B) w = Some (Returns None, r', w')
     \<and> map piece_of (drop (length (calls w)) (calls w')) =
         [Some (OCI_FIRST_PIECE, B), Some (OCI_LAST_PIECE, length (data r) - B)]"
proof -
  from lobBuffers_pos [OF B] obtain k where k: "lobBuffers C (int B) = Returns ((0, B), (k, B))" ..
  show ?thesis
    using B eof len N
    apply (simp add: writeLob_def k ReadFull_enough Let_def)
    apply (subst writeLob_loop.simps)
    apply (simp add: writeLob_iter_def read_next_def ReadFull_short Let_def native_call_Returns)
    apply (subst writeLob_loop.simps)
    apply (simp add: writeLob_iter_def read_next_def ReadFull_short Let_def native_call_Returns)
    done
qed

lemma writeLob_first_last_full:
  assumes B: "0 < B" and eof: "fin r = io_EOF"
    and len: "length (data r) = 2 * B"
    and N: "N (length (calls w)) = Returns a" "r_status a \<noteq> OCI_ERROR"
      "N (Suc (length (calls w))) = Returns a'" "r_status a' \<noteq> OCI_ERROR"
  shows "\<exists>r' w'. writeLob N C locp s r (int B) w = Some (Returns None, r', w')
     \<and> map piece_of (drop (length (calls w)) (calls w')) =
         [Some (OCI_FIRST_PIECE, B), Some (OCI_LAST_PIECE, B)]"
proof -
  from lobBuffers_pos [OF B] obtain k where k: "lobBuffers C (int B) = Returns ((0, B), (k, B))" ..
  show ?thesis
    using B eof len N
    apply (simp add: writeLob_def k ReadFull_enough Let_def)
    apply (subst writeLob_loop.simps)
    apply (simp add: writeLob_iter_def read_next_def ReadFull_enough Let_def native_call_Returns)
    apply (subst writeLob_loop.simps)
    apply (simp add: writeLob_iter_def read_next_def ReadFull_short Let_def native_call_Returns)
    done
qed

lemma writeLob_zero_length:
  assumes B: "0 < B" and eof: "fin r = io_EOF" and len: "data r = []"
  shows "writeLob N C locp s r (int B) w =
     Some (Returns (Some (errNew ''writing a zero-length BLOB is unsupported'')), r, w)"
proof -
  from lobBuffers_pos [OF B] obtain k where k: "lobBuffers C (int B) = Returns ((0, B), (k, B))" ..
  show ?thesis
    using B eof len
    by (simp add: writeLob_def k ReadFull_short Let_def)
qed

text \<open>
  Claim C1. Let the chunk size \<open>B\<close> be positive and the byte source end cleanly, and let
  no native write answer OCI_ERROR. Then \<open>writeLob\<close> returns without error and the
  native calls it has issued are exactly
  \<^item> one write of piece OCI_ONE_PIECE with a buffer of \<open>B\<close> bytes, when the source has
    exactly \<open>B\<close> bytes;
  \<^item> a write of piece OCI_FIRST_PIECE with \<open>B\<close> bytes, then one of piece OCI_LAST_PIECE
    with the remaining bytes, when the source has more than \<open>B\<close> and fewer than \<open>2B\<close>
    bytes;
  \<^item> a write of OCI_FIRST_PIECE then one of OCI_LAST_PIECE, both with \<open>B\<close> bytes, when
    the source has exactly \<open>2B\<close> bytes.
  A source of no bytes makes \<open>writeLob\<close> return the error "writing a zero-length
  BLOB is unsupported" with the world unchanged: no native call is issued, whatever the
  native environment.
\<close>

theorem writeLob_piece_sequence:
  "(0 < B \<and> fin r = io_EOF \<and> (\<forall>i. \<exists>a. N i = Returns a \<and> r_status a \<noteq> OCI_ERROR) \<longrightarrow>
      (length (data r) = B \<longrightarrow>
         (\<exists>r' w'. writeLob N C locp s r (int B) w = Some (Returns None, r', w')
            \<and> map piece_of (drop (length (calls w)) (calls w')) = [Some (OCI_ONE_PIECE, B)]))
    \<and> (B < length (data r) \<and> length (data r) < 2 * B \<longrightarrow>
         (\<exists>r' w'. writeLob N C locp s r (int B) w = Some (Returns None, r', w')
            \<and> map piece_of (drop (length (calls w)) (calls w')) =
                [Some (OCI_FIRST_PIECE, B), Some (OCI_LAST_PIECE, length (data r) - B)]))
    \<and> (length (data r) = 2 * B \<longrightarrow>
         (\<exists>r' w'. writeLob N C locp s r (int B) w = Some (Returns None, r', w')
            \<and> map piece_of (drop (length (calls w)) (calls w')) =
                [Some (OCI_FIRST_PIECE, B), Some (OCI_LAST_PIECE, B)])))
   \<and> (0 < B \<and> fin r = io_EOF \<and> data r = [] \<longrightarrow>
        writeLob N C locp s r (int B) w =
          Some (Returns (Some (errNew ''writing a zero-length BLOB is unsupported'')), r, w))"
proof -
  have "\<exists>r' w'. writeLob N C locp s r (int B) w = Some (Returns None, r', w')
            \<and> map piece_of (drop (length (calls w)) (calls w')) = [Some (OCI_ONE_PIECE, B)]"
    if "0 < B" "fin r = io_EOF" "\<forall>i. \<exists>a. N i = Returns a \<and> r_status a \<noteq> OCI_ERROR"
      "length (data r) = B"
  proof -
    from that(3) obtain a where "N (length (calls w)) = Returns a" "r_status a \<noteq> OCI_ERROR"
      by blast
    with that show ?thesis by (intro writeLob_one_piece)
  qed
  moreover have "\<exists>r' w'. writeLob N C locp s r (int B) w = Some (Returns None, r', w')
            \<and> map piece_of (drop (length (calls w)) (calls w')) =
                [Some (OCI_FIRST_PIECE, B), Some (OCI_LAST_PIECE, length (data r) - B)]"
    if "0 < B" "fin r = io_EOF" "\<forall>i. \<exists>a. N i = Returns a \<and> r_status a \<noteq> OCI_ERROR"
      "B < length (data r)" "length (data r) < 2 * B"
  proof -
    from that(3) obtain a where a: "N (length (calls w)) = Returns a" "r_status a \<noteq> OCI_ERROR"
      by blast
    from that(3) obtain a' where "N (Suc (length (calls w))) = Returns a'" "r_status a' \<noteq> OCI_ERROR"
      by blast
    with a that show ?thesis by (intro writeLob_first_last)
  qed
  moreover have "\<exists>r' w'. writeLob N C locp s r (int B) w = Some (Returns None, r', w')
            \<and> map piece_of (drop (length (calls w)) (calls w')) =
                [Some (OCI_FIRST_PIECE, B), Some (OCI_LAST_PIECE, B)]"
    if "0 < B" "fin r = io_EOF" "\<forall>i. \<exists>a. N i = Returns a \<and> r_status a \<noteq> OCI_ERROR"
      "length (data r) = 2 * B"
  proof -
    from that(3) obtain a where a: "N (length (calls w)) = Returns a" "r_status a \<noteq> OCI_ERROR"
      by blast
    from that(3) obtain a' where "N (Suc (length (calls w))) = Returns a'" "r_status a' \<noteq> OCI_ERROR"
      by blast
    with a that show ?thesis by (intro writeLob_first_last_full)
  qed
  ultimately show ?thesis
    using writeLob_zero_length [of B r N C locp s w] by blast
qed

theorem writeLob_piece_sequence_witness:
  "(\<exists>r' w'. writeLob (answers []) 4 (Some 7) live_stmt \<lparr>data = [1, 2], fin = io_EOF\<rparr> 2 no_calls =
        Some (Returns None, r', w')
      \<and> map piece_of (calls w') = [Some (OCI_ONE_PIECE, 2)])
   \<and> (\<exists>r' w'. writeLob (answers []) 4 (Some 7) live_stmt \<lparr>data = [1, 2, 3], fin = io_EOF\<rparr> 2 no_calls =
        Some (Returns None, r', w')
      \<and> map piece_of (calls w') = [Some (OCI_FIRST_PIECE, 2), Some (OCI_LAST_PIECE, 1)])
   \<and> (\<exists>r' w'. writeLob (answers []) 4 (Some 7) live_stmt \<lparr>data = [1, 2, 3, 4], fin = io_EOF\<rparr> 2 no_calls =
        Some (Returns None, r', w')
      \<and> map piece_of (calls w') = [Some (OCI_FIRST_PIECE, 2), Some (OCI_LAST_PIECE, 2)])
   \<and> writeLob (answers []) 4 (Some 7) live_stmt \<lparr>data = [], fin = io_EOF\<rparr> 2 no_calls =
        Some (Returns (Some (errNew ''writing a zero-length BLOB is unsupported'')),
              \<lparr>data = [], fin = io_EOF\<rparr>, no_calls)"
proof -
  have ok: "\<forall>i. \<exists>a. answers [] i = Returns a \<and> r_status a \<noteq> OCI_ERROR"
    by (simp add: answers_def)
  show ?thesis
    using ok
      writeLob_piece_sequence [where B = 2 and N = "answers []" and C = 4 and locp = "Some 7"
        and s = live_stmt and w = no_calls and r = "\<lparr>data = [1, 2], fin = io_EOF\<rparr>"]
      writeLob_piece_sequence [where B = 2 and N = "answers []" and C = 4 and locp = "Some 7"
        and s = live_stmt and w = no_calls and r = "\<lparr>data = [1, 2, 3], fin = io_EOF\<rparr>"]
      writeLob_piece_sequence [where B = 2 and N = "answers []" and C = 4 and locp = "Some 7"
        and s = live_stmt and w = no_calls and r = "\<lparr>data = [1, 2, 3, 4], fin = io_EOF\<rparr>"]
      writeLob_piece_sequence [where B = 2 and N = "answers []" and C = 4 and locp = "Some 7"
        and s = live_stmt and w = no_calls and r = "\<lparr>data = [], fin = io_EOF\<rparr>"]
    by (simp add: no_calls_def)
qed

lemma writeLob_iter_calls:
  assumes "writeLob_iter N locp B st = (res, s', w')"
  shows "\<exists>X. calls w' = calls (snd st) @ X \<and> filter is_bind X = [] \<and> pools w' = pools (snd st)"
  using assms
  by (auto simp add: writeLob_iter_def native_call_def env_ociError_def Let_def
      split: prod.splits option.splits if_splits outcome.splits)

lemma writeLob_loop_calls:
  assumes "writeLob_loop N locp B st = Some y"
  shows "\<exists>X. calls (snd (snd y)) = calls (snd st) @ X \<and> filter is_bind X = []
     \<and> pools (snd (snd y)) = pools (snd st)"
proof (rule writeLob_loop.raw_induct [OF _ assms], goal_cases)
  case (1 loop N locp B st y)
  obtain res s1 w1 where it: "writeLob_iter N locp B st = (res, s1, w1)"
    by (cases "writeLob_iter N locp B st") auto
  from writeLob_iter_calls [OF it] obtain X where
    X: "calls w1 = calls (snd st) @ X" "filter is_bind X = []" "pools w1 = pools (snd st)"
    by blast
  show ?case
  proof (cases res)
    case (Panics v)
    with 1(2) it X show ?thesis by auto
  next
    case (Returns e)
    show ?thesis
    proof (cases e)
      case (Some r)
      with 1(2) it X Returns show ?thesis by auto
    next
      case None
      with 1(2) it Returns have "loop N locp B (s1, w1) = Some y" by simp
      from 1(1) [OF this] obtain Y where
        "calls (snd (snd y)) = calls w1 @ Y" "filter is_bind Y = []" "pools (snd (snd y)) = pools w1"
        by auto
      with X show ?thesis by auto
    qed
  qed
qed

lemma writeLob_calls:
  assumes "writeLob N C locp s r B w = Some (res, r', w')"
  shows "\<exists>X. calls w' = calls w @ X \<and> filter is_bind X = [] \<and> pools w' = pools w"
proof -
  have *: "\<exists>X. calls w' = calls w @ X \<and> filter is_bind X = [] \<and> pools w' = pools w"
    if "map_option (\<lambda>(res, s1, w1). (res, rdr s1, w1)) (writeLob_loop N locp B (s0, w)) = Some (res, r', w')"
    for s0
  proof -
    from that obtain y where y: "writeLob_loop N locp B (s0, w) = Some y" "snd (snd y) = w'"
      by (auto split: prod.splits)
    from writeLob_loop_calls [OF y(1)] y(2) show ?thesis by simp
  qed
  show ?thesis
    using assms *
    by (auto simp add: writeLob_def Let_def split: outcome.splits prod.splits option.splits if_splits)
qed


lemma writeLob_loop_source_error:
  assumes B: "0 < B" and e: "e \<noteq> io_EOF" "e \<noteq> io_ErrUnexpectedEOF"
    and N: "\<forall>i. \<exists>a. N i = Returns a \<and> r_status a \<noteq> OCI_ERROR"
    and s: "fin (rdr s) = e" "snd (actBuf s) = B" "snd (nextBuf s) = B"
      "actPiece s = OCI_FIRST_PIECE \<or> actPiece s = OCI_NEXT_PIECE" "nextPiece s = OCI_NEXT_PIECE"
  shows "\<exists>s' w'. writeLob_loop N locp (int B) (s, w) = Some (Returns (Some e), s', w')"
  using s
proof (induction "length (data (rdr s))" arbitrary: s w rule: less_induct)
  case less
  from N obtain a where a: "N (length (calls w)) = Returns a" "r_status a \<noteq> OCI_ERROR"
    by blast
  show ?case
  proof (cases "B \<le> length (data (rdr s))")
    case True
    have "\<exists>s1 w1. writeLob_iter N locp (int B) (s, w) = (Returns None, s1, w1)
        \<and> length (data (rdr s1)) < length (data (rdr s))
        \<and> fin (rdr s1) = e \<and> snd (actBuf s1) = B \<and> snd (nextBuf s1) = B
        \<and> (actPiece s1 = OCI_FIRST_PIECE \<or> actPiece s1 = OCI_NEXT_PIECE)
        \<and> nextPiece s1 = OCI_NEXT_PIECE"
      using True B a less.prems
      by (auto simp add: writeLob_iter_def read_next_def ReadFull_enough native_call_Returns Let_def)
    then obtain s1 w1 where it: "writeLob_iter N locp (int B) (s, w) = (Returns None, s1, w1)"
      and lt: "length (data (rdr s1)) < length (data (rdr s))"
      and s1: "fin (rdr s1) = e" "snd (actBuf s1) = B" "snd (nextBuf s1) = B"
        "actPiece s1 = OCI_FIRST_PIECE \<or> actPiece s1 = OCI_NEXT_PIECE"
        "nextPiece s1 = OCI_NEXT_PIECE"
      by blast
    from less.hyps [OF lt s1] obtain s' w' where
      "writeLob_loop N locp (int B) (s1, w1) = Some (Returns (Some e), s', w')"
      by blast
    then show ?thesis
      by (subst writeLob_loop.simps) (simp add: it)
  next
    case False
    then have "\<exists>s1. writeLob_iter N locp (int B) (s, w) = (Returns (Some (Some e)), s1, w)"
      using B e less.prems
      by (auto simp add: writeLob_iter_def read_next_def ReadFull_short Let_def)
    then obtain s1 where "writeLob_iter N locp (int B) (s, w) = (Returns (Some (Some e)), s1, w)"
      by blast
    then show ?thesis
      by (subst writeLob_loop.simps) simp
  qed
qed

lemma writeLob_source_error:
  assumes B: "0 < B" and e: "fin r \<noteq> io_EOF" "fin r \<noteq> io_ErrUnexpectedEOF"
    and N: "\<forall>i. \<exists>a. N i = Returns a \<and> r_status a \<noteq> OCI_ERROR"
  shows "\<exists>r' w'. writeLob N C locp s r (int B) w = Some (Returns (Some (fin r)), r', w')"
proof -
  from lobBuffers_pos [OF B] obtain k where k: "lobBuffers C (int B) = Returns ((0, B), (k, B))" ..
  show ?thesis
  proof (cases "B \<le> length (data r)")
    case True
    let ?s0 = "\<lparr>rdr = r\<lparr>data := drop B (data r)\<rparr>, mem = store (\<lambda>a i. 0) 0 (take B (data r)),
        actBuf = (0, B), nextBuf = (k, B), actPiece = OCI_FIRST_PIECE,
        nextPiece = OCI_NEXT_PIECE, off = 0\<rparr>"
    from writeLob_loop_source_error [OF B e N, of ?s0 locp w]
    obtain s' w' where "writeLob_loop N locp (int B) (?s0, w) = Some (Returns (Some (fin r)), s', w')"
      by auto
    with True show ?thesis
      by (simp add: writeLob_def k ReadFull_enough Let_def)
  next
    case False
    with e show ?thesis
      by (simp add: writeLob_def k ReadFull_short Let_def)
  qed
qed


lemma bndLob_allocTempLob_success:
  assumes "bndLob_allocTempLob N (b, w) = (Returns None, b1, w1)"
  shows "\<exists>l. b1 = b\<lparr>ociLobLocator := l\<rparr>
     \<and> calls w1 = calls w @ [OCIDescriptorAlloc OCI_DTYPE_LOB, OCILobCreateTemporary l]
     \<and> pools w1 = pools w"
  using assms
  by (auto simp add: bndLob_allocTempLob_def allocTempLob_def native_call_def env_ociError_def
      Let_def split: option.splits outcome.splits prod.splits if_splits)

lemma bndLob_allocTempLob_ok:
  assumes "N (length (calls w)) = Returns a" "r_status a \<noteq> OCI_ERROR"
    "r_status a \<noteq> OCI_INVALID_HANDLE"
    "N (Suc (length (calls w))) = Returns a'" "r_status a' \<noteq> OCI_ERROR" "stmt b = Some s"
  shows "bndLob_allocTempLob N (b, w) =
    (Returns None, b\<lparr>ociLobLocator := r_handle a\<rparr>,
     w\<lparr>calls := calls w @ [OCIDescriptorAlloc OCI_DTYPE_LOB, OCILobCreateTemporary (r_handle a)]\<rparr>)"
  using assms
  by (simp add: bndLob_allocTempLob_def allocTempLob_def native_call_Returns)

lemma bindReader_writeLob_failure:
  assumes "bndLob_allocTempLob N (b\<lparr>stmt := Some s\<rparr>, w) = (Returns None, b1, w1)"
    "writeLob N C (ociLobLocator b1) s r (if B \<le> 0 then C else B) w1 =
       Some (Returns (Some err), r2, w2)"
    "N (length (calls w2)) = Returns a0" "N (Suc (length (calls w2))) = Returns a1"
    "N (Suc (Suc (length (calls w2)))) = Returns a2"
  shows "bndLob_bindReader N C r p B s (b, w) =
    Some (Returns (Some err), r2, b1,
      w2\<lparr>calls := calls w2 @ [OCIBreak, OCILobFreeTemporary (ociLobLocator b1),
                               OCIDescriptorFree (ociLobLocator b1) OCI_DTYPE_LOB]\<rparr>)"
  using assms
  by (simp add: bndLob_bindReader_def finish_def native_call_Returns Let_def)

lemma bindReader_source_error:
  assumes B: "0 < (if B \<le> 0 then C else B)"
    and e: "fin r \<noteq> io_EOF" "fin r \<noteq> io_ErrUnexpectedEOF"
    and N: "\<forall>i. \<exists>a. N i = Returns a \<and> r_status a \<noteq> OCI_ERROR \<and> r_status a \<noteq> OCI_INVALID_HANDLE"
  shows "\<exists>r' b' w' X. bndLob_bindReader N C r p B s (b, w) = Some (Returns (Some (fin r)), r', b', w')
     \<and> ocibnd b' = ocibnd b
     \<and> calls w' = calls w @ X @ [OCIBreak, OCILobFreeTemporary (ociLobLocator b'),
                                   OCIDescriptorFree (ociLobLocator b') OCI_DTYPE_LOB]
     \<and> filter is_bind X = []"
proof -
  define eff where "eff = (if B \<le> 0 then C else B)"
  from N obtain a where a: "N (length (calls w)) = Returns a" "r_status a \<noteq> OCI_ERROR"
    "r_status a \<noteq> OCI_INVALID_HANDLE" by blast
  from N obtain a' where a': "N (Suc (length (calls w))) = Returns a'" "r_status a' \<noteq> OCI_ERROR"
    by blast
  define b1 where "b1 = b\<lparr>stmt := Some s, ociLobLocator := r_handle a\<rparr>"
  define w1 where "w1 = w\<lparr>calls := calls w @ [OCIDescriptorAlloc OCI_DTYPE_LOB,
    OCILobCreateTemporary (r_handle a)]\<rparr>"
  have alloc: "bndLob_allocTempLob N (b\<lparr>stmt := Some s\<rparr>, w) = (Returns None, b1, w1)"
    using bndLob_allocTempLob_ok [OF a a', of "b\<lparr>stmt := Some s\<rparr>" s]
    by (simp add: b1_def w1_def)
  have N': "\<forall>i. \<exists>a. N i = Returns a \<and> r_status a \<noteq> OCI_ERROR" using N by blast
  have "0 < nat eff" using B by (simp add: eff_def)
  from writeLob_source_error [OF this e N', of C "ociLobLocator b1" s w1]
  obtain r2 w2 where wl: "writeLob N C (ociLobLocator b1) s r eff w1 = Some (Returns (Some (fin r)), r2, w2)"
    using B by (auto simp add: eff_def)
  from writeLob_calls [OF wl] obtain Y where Y: "calls w2 = calls w1 @ Y" "filter is_bind Y = []"
    by blast
  from N obtain c0 where c0: "N (length (calls w2)) = Returns c0" by blast
  from N obtain c1 where c1: "N (Suc (length (calls w2))) = Returns c1" by blast
  from N obtain c2 where c2: "N (Suc (Suc (length (calls w2)))) = Returns c2" by blast
  from bindReader_writeLob_failure [OF alloc wl [unfolded eff_def] c0 c1 c2, of p]
  have "bndLob_bindReader N C r p B s (b, w) =
    Some (Returns (Some (fin r)), r2, b1,
      w2\<lparr>calls := calls w2 @ [OCIBreak, OCILobFreeTemporary (ociLobLocator b1),
                               OCIDescriptorFree (ociLobLocator b1) OCI_DTYPE_LOB]\<rparr>)" .
  moreover have "ocibnd b1 = ocibnd b" by (simp add: b1_def)
  moreover have "calls w2 = calls w @ ([OCIDescriptorAlloc OCI_DTYPE_LOB,
    OCILobCreateTemporary (r_handle a)] @ Y)" using Y by (simp add: w1_def)
  moreover have "filter is_bind ([OCIDescriptorAlloc OCI_DTYPE_LOB,
    OCILobCreateTemporary (r_handle a)] @ Y) = []" using Y by simp
  ultimately show ?thesis
    by (intro exI [of _ r2] exI [of _ b1]
        exI [of _ "w2\<lparr>calls := calls w2 @ [OCIBreak, OCILobFreeTemporary (ociLobLocator b1),
                               OCIDescriptorFree (ociLobLocator b1) OCI_DTYPE_LOB]\<rparr>"]
        exI [of _ "[OCIDescriptorAlloc OCI_DTYPE_LOB, OCILobCreateTemporary (r_handle a)] @ Y"])
      simp
qed

text \<open>
  Claim C8, as the code has it. (1) With a positive effective chunk size and a native
  environment whose calls all succeed, a byte source whose read error is neither
  \<open>io.EOF\<close> nor \<open>io.ErrUnexpectedEOF\<close> makes \<open>bindReader\<close> return that very error;
  the bind handle is left as it was, the last three calls are the session break, the
  freeing of the temporary LOB and the freeing of its locator, and no bind registration
  is among the calls issued. (2) Whenever \<open>writeLob\<close> returns an error, whatever it is,
  \<open>bindReader\<close> returns the same error after exactly these three calls (provided they
  return), and nothing issued since the start of \<open>bindReader\<close> is a bind registration.
\<close>

theorem bindReader_failure_cleanup:
  "(0 < (if B \<le> 0 then C else B) \<and> fin r \<noteq> io_EOF \<and> fin r \<noteq> io_ErrUnexpectedEOF
      \<and> (\<forall>i. \<exists>a. N i = Returns a \<and> r_status a \<noteq> OCI_ERROR \<and> r_status a \<noteq> OCI_INVALID_HANDLE)
    \<longrightarrow> (\<exists>r' b' w' X.
          bndLob_bindReader N C r p B s (b, w) = Some (Returns (Some (fin r)), r', b', w')
        \<and> ocibnd b' = ocibnd b
        \<and> calls w' = calls w @ X @ [OCIBreak, OCILobFreeTemporary (ociLobLocator b'),
                                      OCIDescriptorFree (ociLobLocator b') OCI_DTYPE_LOB]
        \<and> filter is_bind X = []))
   \<and> (bndLob_allocTempLob N (b\<lparr>stmt := Some s\<rparr>, w) = (Returns None, ba, wa)
      \<and> writeLob N C (ociLobLocator ba) s r (if B \<le> 0 then C else B) wa =
          Some (Returns (Some err), rb, wb)
      \<and> N (length (calls wb)) = Returns xa \<and> N (Suc (length (calls wb))) = Returns ya
      \<and> N (Suc (Suc (length (calls wb)))) = Returns za
    \<longrightarrow> bndLob_bindReader N C r p B s (b, w) =
          Some (Returns (Some err), rb, ba,
            wb\<lparr>calls := calls wb @ [OCIBreak, OCILobFreeTemporary (ociLobLocator ba),
                                     OCIDescriptorFree (ociLobLocator ba) OCI_DTYPE_LOB]\<rparr>)
        \<and> filter is_bind (drop (length (calls w)) (calls wb)) = [])"
proof (intro conjI impI)
  assume "0 < (if B \<le> 0 then C else B) \<and> fin r \<noteq> io_EOF \<and> fin r \<noteq> io_ErrUnexpectedEOF
      \<and> (\<forall>i. \<exists>a. N i = Returns a \<and> r_status a \<noteq> OCI_ERROR \<and> r_status a \<noteq> OCI_INVALID_HANDLE)"
  then show "\<exists>r' b' w' X.
          bndLob_bindReader N C r p B s (b, w) = Some (Returns (Some (fin r)), r', b', w')
        \<and> ocibnd b' = ocibnd b
        \<and> calls w' = calls w @ X @ [OCIBreak, OCILobFreeTemporary (ociLobLocator b'),
                                      OCIDescriptorFree (ociLobLocator b') OCI_DTYPE_LOB]
        \<and> filter is_bind X = []"
    using bindReader_source_error [of B C r N p s b w] by blast
next
  assume h: "bndLob_allocTempLob N (b\<lparr>stmt := Some s\<rparr>, w) = (Returns None, ba, wa)
      \<and> writeLob N C (ociLobLocator ba) s r (if B \<le> 0 then C else B) wa =
          Some (Returns (Some err), rb, wb)
      \<and> N (length (calls wb)) = Returns xa \<and> N (Suc (length (calls wb))) = Returns ya
      \<and> N (Suc (Suc (length (calls wb)))) = Returns za"
  then show "bndLob_bindReader N C r p B s (b, w) =
          Some (Returns (Some err), rb, ba,
            wb\<lparr>calls := calls wb @ [OCIBreak, OCILobFreeTemporary (ociLobLocator ba),
                                     OCIDescriptorFree (ociLobLocator ba) OCI_DTYPE_LOB]\<rparr>)"
    using bindReader_writeLob_failure
      [where N = N and b = b and s = s and w = w and ?b1.0 = ba and ?w1.0 = wa and C = C and r = r
         and B = B and err = err and ?r2.0 = rb and ?w2.0 = wb and ?a0.0 = xa and ?a1.0 = ya
         and ?a2.0 = za and p = p]
    by blast
  from h bndLob_allocTempLob_success [of N "b\<lparr>stmt := Some s\<rparr>" w ba wa]
  obtain l where "calls wa = calls w @ [OCIDescriptorAlloc OCI_DTYPE_LOB, OCILobCreateTemporary l]"
    by blast
  moreover from h writeLob_calls [of N C "ociLobLocator ba" s r "if B \<le> 0 then C else B" wa
      "Returns (Some err)" rb wb]
  obtain Y where "calls wb = calls wa @ Y" "filter is_bind Y = []"
    by blast
  ultimately show "filter is_bind (drop (length (calls w)) (calls wb)) = []"
    by simp
qed

lemma failing_write_allocTempLob:
  "bndLob_allocTempLob (answers [0, 0, OCI_ERROR, 942]) (idle_bndLob\<lparr>stmt := Some live_stmt\<rparr>, no_calls) =
    (Returns None, \<lparr>stmt = Some live_stmt, ocibnd = None, ociLobLocator = Some 100\<rparr>,
     \<lparr>calls = [OCIDescriptorAlloc OCI_DTYPE_LOB, OCILobCreateTemporary (Some 100)], pools = []\<rparr>)"
  by (simp add: bndLob_allocTempLob_def allocTempLob_def native_call_def answers_def no_calls_def
      idle_bndLob_def Let_def)

lemma failing_write_writeLob:
  "writeLob (answers [0, 0, OCI_ERROR, 942]) 4 (Some 100) live_stmt \<lparr>data = [1, 2], fin = io_EOF\<rparr> 2
      \<lparr>calls = [OCIDescriptorAlloc OCI_DTYPE_LOB, OCILobCreateTemporary (Some 100)], pools = []\<rparr> =
    Some (Returns (Some (ociError 942)), \<lparr>data = [], fin = io_EOF\<rparr>,
      \<lparr>calls = [OCIDescriptorAlloc OCI_DTYPE_LOB, OCILobCreateTemporary (Some 100),
                OCILobWrite2 (Some 100) 2 1 [1, 2] 2 OCI_ONE_PIECE, OCIErrorGet], pools = []\<rparr>)"
  apply (simp add: writeLob_def lobBuffers_def ReadFull_def Let_def)
  apply (subst writeLob_loop.simps)
  apply (simp add: writeLob_iter_def read_next_def ReadFull_def native_call_def env_ociError_def
      answers_def contents_def store_def Let_def eval_nat_numeral)
  done

theorem bindReader_failure_cleanup_witness:
  "(\<exists>r' b' w' X.
      bndLob_bindReader (answers []) 4 \<lparr>data = [1], fin = SourceError ''disk''\<rparr> 1 2 live_stmt
        (idle_bndLob, no_calls) = Some (Returns (Some (SourceError ''disk'')), r', b', w')
      \<and> ocibnd b' = None
      \<and> calls w' = X @ [OCIBreak, OCILobFreeTemporary (ociLobLocator b'),
                          OCIDescriptorFree (ociLobLocator b') OCI_DTYPE_LOB]
      \<and> filter is_bind X = [])
   \<and> bndLob_bindReader (answers [0, 0, OCI_ERROR, 942]) 4 \<lparr>data = [1, 2], fin = io_EOF\<rparr> 1 2 live_stmt
        (idle_bndLob, no_calls) =
      Some (Returns (Some (ociError 942)), \<lparr>data = [], fin = io_EOF\<rparr>,
        \<lparr>stmt = Some live_stmt, ocibnd = None, ociLobLocator = Some 100\<rparr>,
        \<lparr>calls = [OCIDescriptorAlloc OCI_DTYPE_LOB, OCILobCreateTemporary (Some 100),
                  OCILobWrite2 (Some 100) 2 1 [1, 2] 2 OCI_ONE_PIECE, OCIErrorGet,
                  OCIBreak, OCILobFreeTemporary (Some 100),
                  OCIDescriptorFree (Some 100) OCI_DTYPE_LOB], pools = []\<rparr>)"
proof -
  have ok: "\<forall>i. \<exists>a. answers [] i = Returns a \<and> r_status a \<noteq> OCI_ERROR \<and> r_status a \<noteq> OCI_INVALID_HANDLE"
    by (simp add: answers_def)
  have n: "answers [0, 0, OCI_ERROR, 942] (Suc (Suc (Suc (Suc 0)))) =
      Returns \<lparr>r_status = 0, r_handle = Some 104, r_amt = 0\<rparr>"
    "answers [0, 0, OCI_ERROR, 942] (Suc (Suc (Suc (Suc (Suc 0))))) =
      Returns \<lparr>r_status = 0, r_handle = Some 105, r_amt = 0\<rparr>"
    "answers [0, 0, OCI_ERROR, 942] (Suc (Suc (Suc (Suc (Suc (Suc 0)))))) =
      Returns \<lparr>r_status = 0, r_handle = Some 106, r_amt = 0\<rparr>"
    by (simp_all add: answers_def)
  have p1: "\<exists>r' b' w' X.
      bndLob_bindReader (answers []) 4 \<lparr>data = [1], fin = SourceError ''disk''\<rparr> 1 2 live_stmt
        (idle_bndLob, no_calls) = Some (Returns (Some (SourceError ''disk'')), r', b', w')
      \<and> ocibnd b' = None
      \<and> calls w' = X @ [OCIBreak, OCILobFreeTemporary (ociLobLocator b'),
                          OCIDescriptorFree (ociLobLocator b') OCI_DTYPE_LOB]
      \<and> filter is_bind X = []"
    using ok
      bindReader_failure_cleanup
        [where N = "answers []" and C = 4 and B = 2 and p = 1 and s = live_stmt
           and b = idle_bndLob and w = no_calls
           and r = "\<lparr>data = [1], fin = SourceError ''disk''\<rparr>", THEN conjunct1]
    by (simp add: no_calls_def idle_bndLob_def)
  have p2: "bndLob_bindReader (answers [0, 0, OCI_ERROR, 942]) 4 \<lparr>data = [1, 2], fin = io_EOF\<rparr> 1 2 live_stmt
        (idle_bndLob, no_calls) =
      Some (Returns (Some (ociError 942)), \<lparr>data = [], fin = io_EOF\<rparr>,
        \<lparr>stmt = Some live_stmt, ocibnd = None, ociLobLocator = Some 100\<rparr>,
        \<lparr>calls = [OCIDescriptorAlloc OCI_DTYPE_LOB, OCILobCreateTemporary (Some 100),
                  OCILobWrite2 (Some 100) 2 1 [1, 2] 2 OCI_ONE_PIECE, OCIErrorGet,
                  OCIBreak, OCILobFreeTemporary (Some 100),
                  OCIDescriptorFree (Some 100) OCI_DTYPE_LOB], pools = []\<rparr>)"
    using n failing_write_allocTempLob failing_write_writeLob
      bindReader_failure_cleanup
        [where N = "answers [0, 0, OCI_ERROR, 942]" and C = 4 and B = 2 and p = 1 and s = live_stmt
           and b = idle_bndLob and w = no_calls
           and r = "\<lparr>data = [1, 2], fin = io_EOF\<rparr>"
           and ba = "\<lparr>stmt = Some live_stmt, ocibnd = None, ociLobLocator = Some 100\<rparr>"
           and wa = "\<lparr>calls = [OCIDescriptorAlloc OCI_DTYPE_LOB, OCILobCreateTemporary (Some 100)],
                      pools = []\<rparr>"
           and rb = "\<lparr>data = [], fin = io_EOF\<rparr>"
           and wb = "\<lparr>calls = [OCIDescriptorAlloc OCI_DTYPE_LOB, OCILobCreateTemporary (Some 100),
                OCILobWrite2 (Some 100) 2 1 [1, 2] 2 OCI_ONE_PIECE, OCIErrorGet], pools = []\<rparr>"
           and err = "ociError 942"
           and xa = "\<lparr>r_status = 0, r_handle = Some 104, r_amt = 0\<rparr>"
           and ya = "\<lparr>r_status = 0, r_handle = Some 105, r_amt = 0\<rparr>"
           and za = "\<lparr>r_status = 0, r_handle = Some 106, r_amt = 0\<rparr>", THEN conjunct2]
    by simp
  from p1 p2 show ?thesis by blast
qed

text \<open>
  Claim C8 as stated fails for a byte source whose own read error is
  \<open>io.ErrUnexpectedEOF\<close> (a truncated stream): after one byte of a two-byte chunk
  \<open>writeLob\<close> takes the error for a short last chunk, writes the byte as the only piece,
  and \<open>bindReader\<close> registers the bind and returns no error. The read error is not
  propagated and the bind is not aborted.
\<close>

theorem bindReader_swallows_ErrUnexpectedEOF_counterexample:
  "bndLob_bindReader (answers []) 4 \<lparr>data = [1], fin = io_ErrUnexpectedEOF\<rparr> 1 2 live_stmt
      (idle_bndLob, no_calls) =
   Some (Returns None, \<lparr>data = [], fin = io_ErrUnexpectedEOF\<rparr>,
         \<lparr>stmt = Some live_stmt, ocibnd = Some 103, ociLobLocator = Some 100\<rparr>,
         \<lparr>calls = [OCIDescriptorAlloc OCI_DTYPE_LOB, OCILobCreateTemporary (Some 100),
                   OCILobWrite2 (Some 100) 1 1 [1] 1 OCI_ONE_PIECE,
                   OCIBINDBYPOS (Some 13) 1 (Some 100) SQLT_BLOB],
          pools = []\<rparr>)"
  apply (simp add: bndLob_bindReader_def bndLob_allocTempLob_def allocTempLob_def
      native_call_def answers_def no_calls_def idle_bndLob_def writeLob_def lobBuffers_def
      ReadFull_def Let_def)
  apply (subst writeLob_loop.simps)
  apply (simp add: writeLob_iter_def native_call_def answers_def contents_def store_def
      bndLob_bindByPos_def live_stmt_def ub4_def Let_def)
  done

subsection \<open>The integer-slice binder\<close>

lemma sb2_minus_one [simp]: "sb2 (- 1) = - 1"
  by (simp add: sb2_def)

lemma set_elem_Returns:
  "i < len s \<Longrightarrow> set_elem s i v = Returns (s\<lparr>arr := (arr s)[i := v]\<rparr>)"
  by (simp add: set_elem_def)

lemma bindOra_loop_ok:
  assumes "n + length vs \<le> len inds" "n + length vs \<le> len is"
    "len inds \<le> length (arr inds)" "len is \<le> length (arr is)"
  shows "\<exists>inds' is'. bindOra_loop vs n inds is = Returns (inds', is')
     \<and> len inds' = len inds \<and> len is' = len is
     \<and> length (arr inds') = length (arr inds) \<and> length (arr is') = length (arr is)
     \<and> (\<forall>j < length vs. arr inds' ! (n + j) = (if IsNull (vs ! j) then - 1 else 0)
            \<and> arr is' ! (n + j) = (if IsNull (vs ! j) then arr is ! (n + j) else Value (vs ! j)))
     \<and> (\<forall>k < n. arr inds' ! k = arr inds ! k \<and> arr is' ! k = arr is ! k)"
  using assms
proof (induction vs arbitrary: n inds "is")
  case Nil
  then show ?case by simp
next
  case (Cons v vs)
  have n: "n < len inds" "n < len is" using Cons.prems by simp_all
  define inds1 where "inds1 = inds\<lparr>arr := (arr inds)[n := (if IsNull v then - 1 else 0)]\<rparr>"
  define is1 where "is1 = (if IsNull v then is else is\<lparr>arr := (arr is)[n := Value v]\<rparr>)"
  have step: "bindOra_loop (v # vs) n inds is = bindOra_loop vs (Suc n) inds1 is1"
    using n by (simp add: set_elem_Returns inds1_def is1_def)
  have pre: "Suc n + length vs \<le> len inds1" "Suc n + length vs \<le> len is1"
    "len inds1 \<le> length (arr inds1)" "len is1 \<le> length (arr is1)"
    using Cons.prems by (simp_all add: inds1_def is1_def)
  from Cons.IH [OF pre] obtain inds' is' where r: "bindOra_loop vs (Suc n) inds1 is1 = Returns (inds', is')"
    and l: "len inds' = len inds1" "len is' = len is1"
      "length (arr inds') = length (arr inds1)" "length (arr is') = length (arr is1)"
    and new: "\<forall>j < length vs. arr inds' ! (Suc n + j) = (if IsNull (vs ! j) then - 1 else 0)
            \<and> arr is' ! (Suc n + j) = (if IsNull (vs ! j) then arr is1 ! (Suc n + j) else Value (vs ! j))"
    and old: "\<forall>k < Suc n. arr inds' ! k = arr inds1 ! k \<and> arr is' ! k = arr is1 ! k"
    by blast
  have at_n: "arr inds' ! n = (if IsNull v then - 1 else 0)"
    "arr is' ! n = (if IsNull v then arr is ! n else Value v)"
    using old n Cons.prems by (simp_all add: inds1_def is1_def)
  have later: "arr is1 ! (Suc n + j) = arr is ! (Suc n + j)" for j
    by (simp add: is1_def)
  have "\<forall>j < length (v # vs). arr inds' ! (n + j) = (if IsNull ((v # vs) ! j) then - 1 else 0)
            \<and> arr is' ! (n + j) = (if IsNull ((v # vs) ! j) then arr is ! (n + j) else Value ((v # vs) ! j))"
  proof (intro allI impI)
    fix j assume j: "j < length (v # vs)"
    show "arr inds' ! (n + j) = (if IsNull ((v # vs) ! j) then - 1 else 0)
            \<and> arr is' ! (n + j) = (if IsNull ((v # vs) ! j) then arr is ! (n + j) else Value ((v # vs) ! j))"
    proof (cases j)
      case 0
      with at_n show ?thesis by simp
    next
      case (Suc j')
      with j new later [of j'] show ?thesis by simp
    qed
  qed
  moreover have "\<forall>k < n. arr inds' ! k = arr inds ! k \<and> arr is' ! k = arr is ! k"
    using old by (simp add: inds1_def is1_def)
  ultimately show ?case
    using step r l by (simp add: inds1_def is1_def)
qed


lemma nth_elems: "i < len s \<Longrightarrow> elems s ! i = arr s ! i"
  by (simp add: elems_def)

lemma bindOra_marshal_ok:
  assumes "wf_slice vals"
  shows "\<exists>b'. bindOra_marshal vals b = Returns b'
     \<and> valuesp b' = Some vals \<and> stmt b' = stmt b \<and> ocibnd b' = ocibnd b
     \<and> ociNumbers b' = ociNumbers b
     \<and> (\<exists>inds. hlp b' = (hlp b)\<lparr>nullInds := inds\<rparr>)
     \<and> len (nullInds (hlp b')) = len vals \<and> len (ints b') = len vals
     \<and> wf_slice (nullInds (hlp b')) \<and> wf_slice (ints b')
     \<and> (\<forall>i < len vals.
           arr (nullInds (hlp b')) ! i = (if IsNull (arr vals ! i) then - 1 else 0)
         \<and> arr (ints b') ! i =
             (if IsNull (arr vals ! i) then (if cap (ints b) < cap vals then 0 else arr (ints b) ! i)
              else Value (arr vals ! i)))"
proof -
  define L where "L = len vals"
  define C where "C = cap vals"
  have LC: "L \<le> C" using assms by (simp add: wf_slice_def L_def C_def)
  define is0 where "is0 = (if cap (ints b) < C then \<lparr>arr = replicate C 0, len = L\<rparr> else (ints b)\<lparr>len := L\<rparr>)"
  define inds0 where "inds0 = (if cap (nullInds (hlp b)) < C then \<lparr>arr = replicate C 0, len = L\<rparr>
     else (nullInds (hlp b))\<lparr>len := L\<rparr>)"
  have a: "(if cap (ints b) < C then make_slice 0 L C else reslice (ints b) L) = Returns is0"
    using LC by (simp add: make_slice_def reslice_def is0_def)
  have c: "(if cap (nullInds (hlp b)) < C then make_slice 0 L C else reslice (nullInds (hlp b)) L)
      = Returns inds0"
    using LC by (simp add: make_slice_def reslice_def inds0_def)
  have l: "len inds0 = L" "len is0 = L" "len inds0 \<le> length (arr inds0)" "len is0 \<le> length (arr is0)"
    using LC by (auto simp add: inds0_def is0_def cap_def)
  have le: "length (elems vals) = L"
    using assms by (simp add: elems_def L_def wf_slice_def cap_def)
  have pre: "0 + length (elems vals) \<le> len inds0" "0 + length (elems vals) \<le> len is0"
    using l le by simp_all
  from bindOra_loop_ok [OF pre l(3,4)] obtain inds' is' where
    r: "bindOra_loop (elems vals) 0 inds0 is0 = Returns (inds', is')"
    and k: "len inds' = len inds0" "len is' = len is0"
      "length (arr inds') = length (arr inds0)" "length (arr is') = length (arr is0)"
    and new: "\<forall>j < length (elems vals). arr inds' ! (0 + j) = (if IsNull (elems vals ! j) then - 1 else 0)
            \<and> arr is' ! (0 + j) = (if IsNull (elems vals ! j) then arr is0 ! (0 + j) else Value (elems vals ! j))"
    by blast
  have is0_nth: "arr is0 ! i = (if cap (ints b) < cap vals then 0 else arr (ints b) ! i)" if "i < L" for i
    using that LC by (simp add: is0_def C_def)
  have "bindOra_marshal vals b =
      Returns (b\<lparr>ints := is', hlp := (hlp b)\<lparr>nullInds := inds'\<rparr>, valuesp := Some vals\<rparr>)"
    using a c r by (simp add: bindOra_marshal_def Let_def L_def [symmetric] C_def [symmetric])
  moreover have "\<forall>i < len vals.
           arr inds' ! i = (if IsNull (arr vals ! i) then - 1 else 0)
         \<and> arr is' ! i =
             (if IsNull (arr vals ! i) then (if cap (ints b) < cap vals then 0 else arr (ints b) ! i)
              else Value (arr vals ! i))"
    using new le is0_nth by (simp add: nth_elems L_def)
  ultimately show ?thesis
    using k l by (auto simp add: wf_slice_def cap_def L_def)
qed





lemma bind_register_Returns:
  assumes "bind_register N it cp p s (b, w) = (Returns res, b', w')"
  shows "ociNumbers b' = ociNumbers b \<and> hlp b' = hlp b \<and> valuesp b' = valuesp b \<and> ints b' = ints b"
  using assms
  by (auto simp add: bind_register_def Let_def native_call_def env_ociError_def
      split: outcome.splits if_splits)












lemma wf_two_rows: "wf_slice two_rows"
  by (simp add: wf_slice_def cap_def two_rows_def)





lemma fromInt_loop_returns:
  assumes "n + length vs \<le> len al" "n + length vs \<le> len nums"
  shows "\<exists>ok al' nums'. fromInt_loop f vs n al nums = Returns (ok, al', nums')"
  using assms
proof (induction vs arbitrary: n al nums)
  case Nil
  then show ?case by auto
next
  case (Cons v vs)
  let ?al = "al\<lparr>arr := (arr al)[n := sizeof_OCINumber]\<rparr>"
  let ?nums = "nums\<lparr>arr := (arr nums)[n := snd (f v)]\<rparr>"
  have "Suc n + length vs \<le> len ?al" "Suc n + length vs \<le> len ?nums"
    using Cons.prems by simp_all
  from Cons.IH [OF this] obtain ok al' nums' where
    "fromInt_loop f vs (Suc n) ?al ?nums = Returns (ok, al', nums')" by blast
  then show ?case using Cons.prems by (auto simp add: set_elem_def)
qed

lemma resize_numbers_returns:
  assumes "L \<le> C"
  shows "\<exists>nums. resize_numbers x L C = Returns nums \<and> len nums = L"
  using assms by (simp add: resize_numbers_def make_slice_def reslice_def)

lemma fromInt_loop_len:
  assumes "fromInt_loop f vs n al nums = Returns (ok, al', nums')"
  shows "len al' = len al \<and> len nums' = len nums"
  using assms
proof (induction vs arbitrary: n al nums)
  case Nil
  then show ?case by simp
next
  case (Cons v vs)
  then show ?case
    by (auto simp add: set_elem_def split: if_splits)
qed

lemma bind_register_returns:
  assumes "0 < len (ociNumbers b)" "0 < len (nullInds (hlp b))" "0 < len (alen (hlp b))"
    "0 < len (rcode (hlp b))" "\<forall>i. \<exists>a. N i = Returns a"
  shows "\<exists>err b' w'. bind_register N it cp p s (b, w) = (Returns (it, err), b', w')
     \<and> hlp b' = hlp b \<and> ints b' = ints b"
proof -
  from assms(5) obtain r1 where r1: "N (length (calls w)) = Returns r1" by blast
  from assms(5) obtain r2 where r2: "N (Suc (length (calls w))) = Returns r2" by blast
  from assms(5) obtain r3 where r3: "N (Suc (Suc (length (calls w)))) = Returns r3" by blast
  show ?thesis
    using assms(1-4) r1 r2 r3
    by (simp add: bind_register_def Let_def native_call_def env_ociError_def)
qed

lemma bndInt64Slice_bind_returns:
  assumes helper: "E (hlp b) (len vs) (cap vs) (stmtType s) = Returns (it, cp, False, L, C, h)"
    and rows: "0 < len vs" "length (elems vs) = len vs"
    and sized: "len vs \<le> L" "L \<le> C" "len vs \<le> len (alen h)" "0 < len (rcode h)"
      "0 < len (nullInds h)"
    and nat: "\<forall>i. \<exists>a. N i = Returns a"
  shows "\<exists>err b' w'. bndInt64Slice_bind N E grow fromInt vs p s (b, w) = (Returns (it, err), b', w')
     \<and> nullInds (hlp b') = nullInds h \<and> ints b' = vs"
proof -
  from resize_numbers_returns [OF sized(2)] obtain nums0 where
    mk: "resize_numbers (ociNumbers b) L C = Returns nums0" and l0: "len nums0 = L"
    by blast
  have "0 + length (elems vs) \<le> len (alen h)" "0 + length (elems vs) \<le> len nums0"
    using rows sized l0 by simp_all
  from fromInt_loop_returns [OF this] obtain ok al nums where
    lp: "fromInt_loop fromInt (elems vs) 0 (alen h) nums0 = Returns (ok, al, nums)" by blast
  from fromInt_loop_len [OF lp] have l: "len al = len (alen h)" "len nums = len nums0" by simp_all
  let ?b = "b\<lparr>stmt := Some s, ints := vs, ociNumbers := nums, hlp := h\<lparr>alen := al\<rparr>\<rparr>"
  show ?thesis
  proof (cases ok)
    case True
    have "0 < len (ociNumbers ?b)" "0 < len (nullInds (hlp ?b))" "0 < len (alen (hlp ?b))"
      "0 < len (rcode (hlp ?b))"
      using l l0 rows sized by simp_all
    from bind_register_returns [OF this nat, of it cp p s w] obtain err b' w' where
      "bind_register N it cp p s (?b, w) = (Returns (it, err), b', w')"
      "hlp b' = hlp ?b" "ints b' = ints ?b" by blast
    with helper mk lp True show ?thesis
      by (simp add: bndInt64Slice_bind_def Let_def)
  next
    case False
    from nat obtain r where "N (length (calls w)) = Returns r" by blast
    with helper mk lp False show ?thesis
      by (simp add: bndInt64Slice_bind_def Let_def env_ociError_def native_call_def)
  qed
qed

lemma bind_register_reached:
  assumes "bind_register N it cp p s (b, w) = (Returns res, b', w')"
  shows "0 < len (nullInds (hlp b))"
  using assms
  by (cases "len (nullInds (hlp b)) = 0") (simp_all add: bind_register_def Let_def)

lemma bndInt64Slice_bind_registered:
  assumes "bndInt64Slice_bind N E grow fromInt vs p s (b, w) = (Returns (it, None), b', w')"
  shows "0 < len (nullInds (hlp b'))"
proof -
  obtain it0 cp na L C h where E: "E (hlp b) (len vs) (cap vs) (stmtType s) = Returns (it0, cp, na, L, C, h)"
    using assms
    by (cases "E (hlp b) (len vs) (cap vs) (stmtType s)") (auto simp add: bndInt64Slice_bind_def)
  define vs' where "vs' = (if na then append1 grow 0 vs 0 else vs)"
  obtain nums0 where mk: "resize_numbers (ociNumbers b) L C = Returns nums0"
    using assms E
    by (cases "resize_numbers (ociNumbers b) L C") (auto simp add: bndInt64Slice_bind_def Let_def)
  obtain ok al nums where lp: "fromInt_loop fromInt (elems vs') 0 (alen h) nums0 = Returns (ok, al, nums)"
    using assms E mk
    by (cases "fromInt_loop fromInt (elems vs') 0 (alen h) nums0")
      (auto simp add: bndInt64Slice_bind_def Let_def vs'_def)
  let ?b = "b\<lparr>stmt := Some s, ints := vs', ociNumbers := nums, hlp := h\<lparr>alen := al\<rparr>\<rparr>"
  have reg: "bind_register N it0 cp p s (?b, w) = (Returns (it, None), b', w')"
    using assms E mk lp
    by (cases ok)
      (auto simp add: bndInt64Slice_bind_def Let_def vs'_def env_ociError_def native_call_def
        split: outcome.splits)
  from bind_register_reached [OF reg] have "0 < len (nullInds (hlp ?b))" .
  moreover from bind_register_Returns [OF reg] have "hlp b' = hlp ?b" by simp
  ultimately show ?thesis by simp
qed

lemma bindOra_registered:
  assumes "bndInt64Slice_bindOra N E grow fromInt vals p s (b, w) = (Returns (it, None), b', w')"
  shows "0 < len (nullInds (hlp b'))"
  using assms
  by (cases "bindOra_marshal vals b")
    (auto simp add: bndInt64Slice_bindOra_def dest: bndInt64Slice_bind_registered)

lemma marshal_two_rows:
  "bindOra_marshal two_rows fresh_bndInt64Slice = Returns marshalled_two_rows"
  by code_simp

lemma padding_helper_two_rows:
  "padding_helper (hlp marshalled_two_rows) (len (ints marshalled_two_rows))
     (cap (ints marshalled_two_rows)) (stmtType live_stmt)
   = Returns (1, True, False, 2, 2, sized_arrHlp)"
  by code_simp

text \<open>
  Claim C4, as the code has it. Let \<open>vals\<close> be a slice of nullable 64-bit integers with
  at least one row, and \<open>bm\<close> the binder as \<^verbatim>\<open>bindOra\<close> hands it to \<^verbatim>\<open>bind\<close>.
  \<^verbatim>\<open>bind\<close> first calls the length helper of the array binders, which is a parameter
  here. When, on that call, the helper asks for no appended element, leaves the
  indicator array as \<^verbatim>\<open>bindOra\<close> filled it, gives a length \<open>L\<close> and a capacity \<open>C\<close>
  with room for the rows, and has the actual-length array as long as the rows and the
  return-code array not empty, and when no native call panics, then \<^verbatim>\<open>bindOra\<close>
  returns (with the helper's iteration count, and an error or none), and after it the
  null-indicator array has the length of \<open>vals\<close>; at every index the indicator is the
  null sentinel \<open>- 1\<close> exactly when the element of \<open>vals\<close> has \<open>IsNull\<close> set; it is
  \<open>0\<close> otherwise, and the value buffer then holds the element's value. At a null row
  the value buffer is not written: it holds zero when the buffer was made afresh and what
  it held before when it was re-sliced.
\<close>

theorem bindOra_null_indicators:
  assumes wf: "wf_slice vals"
    and rows: "0 < len vals"
    and marshal: "bindOra_marshal vals b = Returns bm"
    and helper: "E (hlp bm) (len (ints bm)) (cap (ints bm)) (stmtType s) = Returns (it, cp, False, L, C, h)"
    and keep: "nullInds h = nullInds (hlp bm)"
    and sized: "len vals \<le> L" "L \<le> C" "len vals \<le> len (alen h)" "0 < len (rcode h)"
    and native: "\<forall>i. \<exists>a. N i = Returns a"
  shows "\<exists>err b' w'.
       bndInt64Slice_bindOra N E grow fromInt vals p s (b, w) = (Returns (it, err), b', w')
     \<and> len (nullInds (hlp b')) = len vals
     \<and> (\<forall>i < len vals.
           (elems (nullInds (hlp b')) ! i = - 1) = IsNull (elems vals ! i)
         \<and> (\<not> IsNull (elems vals ! i) \<longrightarrow>
              elems (nullInds (hlp b')) ! i = 0 \<and> elems (ints b') ! i = Value (elems vals ! i))
         \<and> (IsNull (elems vals ! i) \<longrightarrow>
              elems (ints b') ! i = (if cap (ints b) < cap vals then 0 else arr (ints b) ! i)))"
proof -
  from bindOra_marshal_ok [OF wf, of b] marshal have
    l: "len (nullInds (hlp bm)) = len vals" "len (ints bm) = len vals"
    and w: "wf_slice (ints bm)"
    and filled: "\<forall>i < len vals.
           arr (nullInds (hlp bm)) ! i = (if IsNull (arr vals ! i) then - 1 else 0)
         \<and> arr (ints bm) ! i =
             (if IsNull (arr vals ! i) then (if cap (ints b) < cap vals then 0 else arr (ints b) ! i)
              else Value (arr vals ! i))"
    by simp_all
  have e: "length (elems (ints bm)) = len (ints bm)"
    using w by (simp add: elems_def wf_slice_def cap_def)
  have "0 < len (ints bm)" "len (ints bm) \<le> L" "len (ints bm) \<le> len (alen h)"
    "0 < len (nullInds h)"
    using rows sized l keep by simp_all
  from bndInt64Slice_bind_returns [where E = E and b = bm and vs = "ints bm" and s = s
      and it = it and cp = cp and L = L and C = C and h = h and N = N and grow = grow
      and fromInt = fromInt and p = p and w = w,
      OF helper this(1) e this(2) sized(2) this(3) sized(4) this(4) native]
  obtain err b' w' where
    bd: "bndInt64Slice_bind N E grow fromInt (ints bm) p s (bm, w) = (Returns (it, err), b', w')"
    and after: "nullInds (hlp b') = nullInds h" "ints b' = ints bm"
    by blast
  from bd marshal have
    "bndInt64Slice_bindOra N E grow fromInt vals p s (b, w) = (Returns (it, err), b', w')"
    by (simp add: bndInt64Slice_bindOra_def)
  moreover have "len (nullInds (hlp b')) = len vals"
    using after keep l by simp
  moreover have "\<forall>i < len vals.
           (elems (nullInds (hlp b')) ! i = - 1) = IsNull (elems vals ! i)
         \<and> (\<not> IsNull (elems vals ! i) \<longrightarrow>
              elems (nullInds (hlp b')) ! i = 0 \<and> elems (ints b') ! i = Value (elems vals ! i))
         \<and> (IsNull (elems vals ! i) \<longrightarrow>
              elems (ints b') ! i = (if cap (ints b) < cap vals then 0 else arr (ints b) ! i))"
    using filled l after keep by (simp add: nth_elems)
  ultimately show ?thesis by blast
qed

theorem bindOra_null_indicators_witness:
  "wf_slice two_rows \<and> 0 < len two_rows
   \<and> bindOra_marshal two_rows fresh_bndInt64Slice = Returns marshalled_two_rows
   \<and> padding_helper (hlp marshalled_two_rows) (len (ints marshalled_two_rows))
        (cap (ints marshalled_two_rows)) (stmtType live_stmt)
      = Returns (1, True, False, 2, 2, sized_arrHlp)
   \<and> nullInds sized_arrHlp = nullInds (hlp marshalled_two_rows)
   \<and> len two_rows \<le> 2 \<and> len two_rows \<le> len (alen sized_arrHlp) \<and> 0 < len (rcode sized_arrHlp)
   \<and> (\<forall>i. \<exists>a. answers [] i = Returns a)
   \<and> (\<exists>err b' w'.
         bndInt64Slice_bindOra (answers []) padding_helper double unary_fromInt two_rows 1 live_stmt
           (fresh_bndInt64Slice, no_calls) = (Returns (1, err), b', w')
       \<and> len (nullInds (hlp b')) = 2
       \<and> elems (nullInds (hlp b')) ! 0 = 0 \<and> elems (ints b') ! 0 = 3
       \<and> elems (nullInds (hlp b')) ! 1 = - 1 \<and> elems (ints b') ! 1 = 0)"
proof -
  have rows: "0 < len two_rows" "len two_rows = 2"
    "\<not> IsNull (elems two_rows ! 0)" "Value (elems two_rows ! 0) = 3" "IsNull (elems two_rows ! 1)"
    by (simp_all add: two_rows_def elems_def)
  have keep: "nullInds sized_arrHlp = nullInds (hlp marshalled_two_rows)"
    by (simp add: sized_arrHlp_def marshalled_two_rows_def)
  have sized: "len two_rows \<le> 2" "(2 :: nat) \<le> 2" "len two_rows \<le> len (alen sized_arrHlp)"
    "0 < len (rcode sized_arrHlp)"
    by (simp_all add: two_rows_def sized_arrHlp_def)
  have native: "\<forall>i. \<exists>a. answers [] i = Returns a"
    by (simp add: answers_def)
  have fresh: "\<not> cap (ints fresh_bndInt64Slice) < cap two_rows \<longrightarrow> False"
    by (simp add: fresh_bndInt64Slice_def two_rows_def cap_def)
  from bindOra_null_indicators [where vals = two_rows and b = fresh_bndInt64Slice
      and bm = marshalled_two_rows and E = padding_helper and s = live_stmt and it = 1
      and cp = True and L = 2 and C = 2 and h = sized_arrHlp and N = "answers []"
      and grow = double and fromInt = unary_fromInt and p = 1 and w = no_calls,
      OF wf_two_rows rows(1) marshal_two_rows padding_helper_two_rows keep sized native]
  obtain err b' w' where
    r: "bndInt64Slice_bindOra (answers []) padding_helper double unary_fromInt two_rows 1 live_stmt
           (fresh_bndInt64Slice, no_calls) = (Returns (1, err), b', w')"
    and l: "len (nullInds (hlp b')) = len two_rows"
    and f: "\<forall>i < len two_rows.
           (elems (nullInds (hlp b')) ! i = - 1) = IsNull (elems two_rows ! i)
         \<and> (\<not> IsNull (elems two_rows ! i) \<longrightarrow>
              elems (nullInds (hlp b')) ! i = 0 \<and> elems (ints b') ! i = Value (elems two_rows ! i))
         \<and> (IsNull (elems two_rows ! i) \<longrightarrow>
              elems (ints b') ! i =
                (if cap (ints fresh_bndInt64Slice) < cap two_rows then 0
                 else arr (ints fresh_bndInt64Slice) ! i))"
    by blast
  from f [rule_format, of 0] rows have "elems (nullInds (hlp b')) ! 0 = 0" "elems (ints b') ! 0 = 3"
    by simp_all
  moreover from f [rule_format, of 1] rows fresh
  have "elems (nullInds (hlp b')) ! 1 = - 1" "elems (ints b') ! 1 = 0"
    by auto
  ultimately show ?thesis
    using r l rows wf_two_rows marshal_two_rows padding_helper_two_rows keep sized native
    by (simp del: One_nat_def)
qed

lemma bindOra_no_rows:
  "fst (bndInt64Slice_bindOra (answers []) padding_helper double unary_fromInt no_rows 1 live_stmt
          (fresh_bndInt64Slice, no_calls)) = Returns (1, None)
   \<and> len (nullInds (hlp (fst (snd
          (bndInt64Slice_bindOra (answers []) padding_helper double unary_fromInt no_rows 1 live_stmt
             (fresh_bndInt64Slice, no_calls)))))) = 1"
  by code_simp

text \<open>
  Claim C4 as stated fails on the slice with no rows. \<^verbatim>\<open>bind\<close> takes the address of
  the first element of the indicator array when it registers the bind, so whatever the
  helper, the conversions and the native environment are, \<^verbatim>\<open>bindOra\<close> never returns
  without error leaving an indicator array of length zero. With a helper that pads the
  empty slice by one slot, \<^verbatim>\<open>bindOra\<close> on an unused binder returns without error and
  the indicator array has length one.
\<close>

theorem bindOra_empty_slice_counterexample:
  "len no_rows = 0
   \<and> fst (bndInt64Slice_bindOra (answers []) padding_helper double unary_fromInt no_rows 1 live_stmt
          (fresh_bndInt64Slice, no_calls)) = Returns (1, None)
   \<and> len (nullInds (hlp (fst (snd
          (bndInt64Slice_bindOra (answers []) padding_helper double unary_fromInt no_rows 1 live_stmt
             (fresh_bndInt64Slice, no_calls)))))) = 1
   \<and> \<not> (\<exists>N E grow fromInt p s b w it b' w'.
            bndInt64Slice_bindOra N E grow fromInt no_rows p s (b, w) = (Returns (it, None), b', w')
          \<and> len (nullInds (hlp b')) = len no_rows)"
proof -
  have "len no_rows = 0" by (simp add: no_rows_def)
  moreover have "\<not> (\<exists>N E grow fromInt p s b w it b' w'.
            bndInt64Slice_bindOra N E grow fromInt no_rows p s (b, w) = (Returns (it, None), b', w')
          \<and> len (nullInds (hlp b')) = len no_rows)"
    using bindOra_registered by (fastforce simp add: no_rows_def)
  ultimately show ?thesis using bindOra_no_rows by blast
qed

end
